theory Spec2Isabelle
  imports Complex_Main
begin

section \<open>Risk modelling service: numbers\<close>

text \<open>
  The service computes with Python floats and integers. Floats are modelled as exact
  reals (a decimal literal such as \<^verbatim>\<open>0.85\<close> is the rational 85/100), integers as
  \<^typ>\<open>int\<close>. The rounding of binary floating point is outside these definitions; the
  default-risk path is defined a second time with the rounding as a parameter, for the
  statements that must not depend on it. numpy's routines are modelled by the real
  functions they approximate.
\<close>

definition py_int :: "real \<Rightarrow> int" where
  \<comment> \<open>Python's \<^verbatim>\<open>int(x)\<close> on a float: truncation toward zero.\<close>
  "py_int x = (if 0 \<le> x then \<lfloor>x\<rfloor> else \<lceil>x\<rceil>)"

definition py_round :: "real \<Rightarrow> int" where
  \<comment> \<open>Python's \<^verbatim>\<open>round(x)\<close>: to the nearest integer, a tie to the even one.\<close>
  "py_round x =
     (let f = \<lfloor>x\<rfloor>; d = x - of_int f
      in if d < 1 / 2 then f
         else if 1 / 2 < d then f + 1
         else if even f then f else f + 1)"

section \<open>Stored rows\<close>

text \<open>
  The rows of the three tables the service queries, with the columns it reads or writes.
  A nullable column is an \<^typ>\<open>'a option\<close>; timestamps are integers. Python's exceptions
  are values of the type \<^verbatim>\<open>error\<close>. Its last value, \<^verbatim>\<open>DegenerateSimulationInput\<close>, is not an
  exception of the code: it is the specification's name for the rejection of a degenerate
  return series, and only the specification's wording of the fund path returns it.
\<close>

datatype error =
  ValueError string | TypeError | ZeroDivisionError | IndexError | DegenerateSimulationInput

record ai_model =
  model_id :: string
  status :: "string option"
  version :: "string option"

record feature_store =
  feature_timestamp :: int
  entity_type :: string
  entity_id :: string
  late_payment_count :: "int option"
  missed_payment_count :: "int option"
  on_time_payment_rate :: "real option"
  avg_payment_delay_days :: "real option"
  current_balance :: "real option"
  account_growth_rate :: "real option"
  leverage_ratio :: "real option"
  liquidity_risk :: "real option"
  recent_sentiment_score :: "real option"
  sentiment_trend :: "int option"
  communication_frequency :: "int option"
  portfolio_concentration :: "real option"
  portfolio_volatility :: "real option"
  diversification_score :: "real option"

definition py_or :: "'a::zero option \<Rightarrow> 'a \<Rightarrow> 'a" where
  \<comment> \<open>Python's \<^verbatim>\<open>x or d\<close> on a nullable number: \<^verbatim>\<open>None\<close> and zero are falsy.\<close>
  "py_or x d = (case x of None \<Rightarrow> d | Some v \<Rightarrow> if v = 0 then d else v)"

definition falsy :: "'a::zero option \<Rightarrow> bool" where
  \<comment> \<open>the stored values Python's \<^verbatim>\<open>or\<close> replaces: \<^verbatim>\<open>None\<close> and zero\<close>
  "falsy x = (x = None \<or> x = Some 0)"

definition order_by_desc :: "('a \<Rightarrow> int) \<Rightarrow> 'a list \<Rightarrow> 'a list" where
  \<comment> \<open>\<^verbatim>\<open>order_by(col.desc())\<close>; rows with equal keys stay in table order\<close>
  "order_by_desc key rows = sort_key (\<lambda>r. - key r) rows"

definition first :: "'a list \<Rightarrow> 'a option" where
  \<comment> \<open>\<^verbatim>\<open>.first()\<close>: the first row of the result, or \<^verbatim>\<open>None\<close>\<close>
  "first rows = (case rows of [] \<Rightarrow> None | r # _ \<Rightarrow> Some r)"

definition offset :: "nat \<Rightarrow> 'a list \<Rightarrow> 'a list" where
  "offset n rows = drop n rows"

section \<open>Default-risk features and scorer\<close>

record risk_features =
  late_payment_count :: int
  missed_payment_count :: int
  on_time_payment_rate :: real
  avg_payment_delay_days :: real
  current_balance :: real
  account_growth_rate :: real
  leverage_ratio :: real
  liquidity_risk :: real
  recent_sentiment_score :: real
  sentiment_trend :: int
  communication_frequency :: int
  portfolio_concentration :: real
  portfolio_volatility :: real
  diversification_score :: real

definition generate_default_risk_features :: risk_features where
  "generate_default_risk_features =
     \<lparr> late_payment_count = 1,
       missed_payment_count = 0,
       on_time_payment_rate = 9 / 10,
       avg_payment_delay_days = 15 / 10,
       current_balance = 1000000,
       account_growth_rate = 8 / 100,
       leverage_ratio = 3 / 10,
       liquidity_risk = 15 / 100,
       recent_sentiment_score = 6 / 10,
       sentiment_trend = 0,
       communication_frequency = 5,
       portfolio_concentration = 4 / 10,
       portfolio_volatility = 18 / 100,
       diversification_score = 7 / 10 \<rparr>"

text \<open>The five additive contributions of \<^verbatim>\<open>_predict_default_risk\<close>, named as its locals.\<close>

definition late_payment_score :: "risk_features \<Rightarrow> real" where
  "late_payment_score f = of_int (late_payment_count f) * 5"

definition missed_payment_score :: "risk_features \<Rightarrow> real" where
  "missed_payment_score f = of_int (missed_payment_count f) * 15"

definition on_time_bonus :: "risk_features \<Rightarrow> real" where
  "on_time_bonus f = (1 - on_time_payment_rate f) * 30"

definition leverage_score :: "risk_features \<Rightarrow> real" where
  "leverage_score f = leverage_ratio f * 20"

definition sentiment_score :: "risk_features \<Rightarrow> real" where
  "sentiment_score f = max 0 (5 / 10 - recent_sentiment_score f) * 25"

definition raw_risk_score :: "risk_features \<Rightarrow> real" where
  \<comment> \<open>the local \<^verbatim>\<open>risk_score\<close> before conversion to an integer\<close>
  "raw_risk_score f =
     min 100 (late_payment_score f + missed_payment_score f + on_time_bonus f
              + leverage_score f + sentiment_score f)"

definition predict_default_risk :: "risk_features \<Rightarrow> real \<times> int" where
  "predict_default_risk f =
     (let risk_score = raw_risk_score f;
          risk_probability = risk_score / 100 * (25 / 100)
      in (risk_probability, py_int risk_score))"

datatype risk_tier = TIER_1 | TIER_2 | TIER_3 | TIER_4 | TIER_5

definition calculate_risk_tier :: "real \<Rightarrow> risk_tier" where
  "calculate_risk_tier risk_probability =
     (if risk_probability < 2 / 100 then TIER_1
      else if risk_probability < 5 / 100 then TIER_2
      else if risk_probability < 10 / 100 then TIER_3
      else if risk_probability < 20 / 100 then TIER_4
      else TIER_5)"

definition scenario_features :: risk_features where
  \<comment> \<open>the worked example: three late payments, none missed, on-time rate 0.85,
      leverage 0.3, sentiment 0.6; the fields the scorer does not read are the defaults\<close>
  "scenario_features =
     generate_default_risk_features
       \<lparr> late_payment_count := 3,
         missed_payment_count := 0,
         on_time_payment_rate := 85 / 100,
         leverage_ratio := 3 / 10,
         recent_sentiment_score := 6 / 10 \<rparr>"

section \<open>Default-risk assessment\<close>

datatype trend = IMPROVING | STABLE | DETERIORATING

record risk_factor =
  factor :: string
  weight :: real

text \<open>
  A numpy float is a real or NaN: \<^term>\<open>None\<close> stands for NaN, \<^term>\<open>Some x\<close> for the
  finite value \<^term>\<open>x\<close>.
\<close>

type_synonym npfloat = "real option"

text \<open>The dict returned by \<^verbatim>\<open>assess_investor_default_risk\<close>, nested dicts flattened.\<close>

record default_risk_response =
  prediction_id :: string
  investor_id :: string
  risk_type :: string
  risk_horizon :: string
  default_probability :: real
  risk_tier :: risk_tier
  risk_score :: int
  previous_score :: "int option"
  trend :: trend
  magnitude :: int
  trend_period :: string
  top_risk_factors :: "risk_factor list"
  amount :: real
  percentage_of_portfolio :: real
  recommended_actions :: "string list"
  model_version :: "string option"
  prediction_timestamp :: int

text \<open>The dicts of the fund path: features, scenario table, metrics, response.\<close>

record fund_features =
  historical_returns :: "real list"
  volatility :: real
  sharpe_ratio :: real
  max_drawdown :: real
  correlation_sp500 :: real
  asset_allocation :: "(string \<times> real) list"

record scenario_param =
  return :: real
  volatility :: real

record scenario_result =
  scenario :: string
  expected_return :: real
  volatility :: real
  probability :: real

record stress_test =
  test :: string
  expected_return :: real
  probability :: real

record risk_metrics =
  expected_return_1y :: npfloat
  volatility :: npfloat
  var_95 :: npfloat
  var_99 :: npfloat
  cvar_95 :: npfloat
  sharpe_ratio :: npfloat
  sortino_ratio :: npfloat
  max_drawdown :: npfloat
  probability_positive_return :: npfloat

record return_distribution =
  expected_return :: npfloat
  percentile_5 :: npfloat
  percentile_25 :: npfloat
  percentile_50 :: npfloat
  percentile_75 :: npfloat
  percentile_95 :: npfloat

record fund_risk_response =
  prediction_id :: string
  fund_id :: string
  risk_metrics :: risk_metrics
  return_distribution :: return_distribution
  scenario_analysis :: "scenario_result list"
  stress_tests :: "stress_test list"
  model_version :: "string option"
  prediction_timestamp :: int

record mc_results =
  returns :: "npfloat list"
  expected_return :: npfloat
  volatility :: npfloat
  max_drawdown :: npfloat
  prob_positive :: npfloat
  p5 :: npfloat
  p25 :: npfloat
  p50 :: npfloat
  p75 :: npfloat
  p95 :: npfloat

text \<open>
  A row of \<^verbatim>\<open>RiskPrediction\<close>. Both paths of the service set \<^verbatim>\<open>risk_probability\<close>
  and \<^verbatim>\<open>risk_score\<close>; the columns a path leaves out are \<^term>\<open>None\<close>.
\<close>

record risk_prediction =
  prediction_id :: string
  model_id :: string
  risk_type :: string
  risk_horizon :: string
  investor_id :: "string option"
  fund_id :: "string option"
  risk_probability :: real
  risk_tier :: "risk_tier option"
  risk_score :: int
  previous_risk_score :: "int option"
  risk_trend :: "trend option"
  trend_magnitude :: "int option"
  top_risk_factors :: "risk_factor list option"
  contributing_metrics :: "(string \<times> npfloat) list option"
  estimated_loss_exposure :: "real option"
  exposure_percentage :: "real option"
  recommended_actions :: "string list"
  prediction_timestamp :: int

record db =
  ai_models :: "ai_model list"
  feature_rows :: "feature_store list"
  risk_predictions :: "risk_prediction list"

definition default_risk_model_id :: string where
  "default_risk_model_id = ''DEFAULT_RISK_NN_V2.3''"

definition fund_risk_model_id :: string where
  "fund_risk_model_id = ''FUND_RISK_MC_V1.5''"

definition production_model :: "db \<Rightarrow> string \<Rightarrow> ai_model option" where
  \<comment> \<open>the model query of both assessments: id and status \<^verbatim>\<open>PRODUCTION\<close>, first row\<close>
  "production_model d mid =
     first (filter (\<lambda>m. ai_model.model_id m = mid \<and> status m = Some ''PRODUCTION'')
              (ai_models d))"

definition latest_feature_record :: "db \<Rightarrow> string \<Rightarrow> feature_store option" where
  \<comment> \<open>the feature query of \<^verbatim>\<open>_extract_risk_features\<close> and \<^verbatim>\<open>_calculate_loss_exposure\<close>\<close>
  "latest_feature_record d iid =
     first (order_by_desc feature_timestamp
              (filter (\<lambda>r. entity_type r = ''INVESTOR'' \<and> entity_id r = iid)
                 (feature_rows d)))"

definition features_of_record :: "feature_store \<Rightarrow> risk_features" where
  \<comment> \<open>the dict built from a stored record, each field with its \<^verbatim>\<open>or\<close> default\<close>
  "features_of_record feature_record =
     \<lparr> late_payment_count = py_or (feature_store.late_payment_count feature_record) 0,
       missed_payment_count = py_or (feature_store.missed_payment_count feature_record) 0,
       on_time_payment_rate =
         py_or (feature_store.on_time_payment_rate feature_record) (9 / 10),
       avg_payment_delay_days =
         py_or (feature_store.avg_payment_delay_days feature_record) (15 / 10),
       current_balance = py_or (feature_store.current_balance feature_record) 1000000,
       account_growth_rate =
         py_or (feature_store.account_growth_rate feature_record) (8 / 100),
       leverage_ratio = py_or (feature_store.leverage_ratio feature_record) (3 / 10),
       liquidity_risk = py_or (feature_store.liquidity_risk feature_record) (15 / 100),
       recent_sentiment_score =
         py_or (feature_store.recent_sentiment_score feature_record) (6 / 10),
       sentiment_trend = py_or (feature_store.sentiment_trend feature_record) 0,
       communication_frequency =
         py_or (feature_store.communication_frequency feature_record) 5,
       portfolio_concentration =
         py_or (feature_store.portfolio_concentration feature_record) (4 / 10),
       portfolio_volatility =
         py_or (feature_store.portfolio_volatility feature_record) (18 / 100),
       diversification_score =
         py_or (feature_store.diversification_score feature_record) (7 / 10) \<rparr>"

definition extract_risk_features :: "db \<Rightarrow> string \<Rightarrow> risk_features" where
  "extract_risk_features d iid =
     (case latest_feature_record d iid of
        None \<Rightarrow> generate_default_risk_features
      | Some feature_record \<Rightarrow> features_of_record feature_record)"

definition calculate_risk_trend :: "db \<Rightarrow> string \<Rightarrow> int \<Rightarrow> int \<times> trend" where
  "calculate_risk_trend d iid current_score =
     (case first (offset 1 (order_by_desc risk_prediction.prediction_timestamp
                   (filter (\<lambda>p. risk_prediction.investor_id p = Some iid
                                \<and> risk_prediction.risk_type p = ''DEFAULT_RISK'')
                      (risk_predictions d)))) of
        None \<Rightarrow> (current_score, STABLE)
      | Some previous_prediction \<Rightarrow>
          (let prev = risk_prediction.risk_score previous_prediction;
               diff = current_score - prev
           in (prev,
               if diff > 5 then DETERIORATING
               else if diff < - 5 then IMPROVING
               else STABLE)))"

definition identify_risk_factors :: "risk_features \<Rightarrow> risk_factor list" where
  "identify_risk_factors f =
     (let factors =
            (if late_payment_count f > 2
             then [\<lparr> factor = ''recent_payment_delays'', weight = 28 / 100 \<rparr>] else [])
          @ (if account_growth_rate f < 0
             then [\<lparr> factor = ''account_balance_decline'', weight = 22 / 100 \<rparr>] else [])
          @ (if recent_sentiment_score f < 3 / 10
             then [\<lparr> factor = ''communication_sentiment_negative'', weight = 18 / 100 \<rparr>]
             else [])
          @ (if leverage_ratio f > 5 / 10
             then [\<lparr> factor = ''high_leverage_ratio'', weight = 15 / 100 \<rparr>] else []);
          factors' =
            (if factors = []
             then [\<lparr> factor = ''portfolio_volatility'', weight = 20 / 100 \<rparr>,
                   \<lparr> factor = ''market_conditions'', weight = 15 / 100 \<rparr>]
             else factors)
      in take 5 factors')"

definition calculate_loss_exposure :: "db \<Rightarrow> string \<Rightarrow> real \<Rightarrow> error + real \<times> real" where
  \<comment> \<open>the pair is (\<^verbatim>\<open>amount\<close>, \<^verbatim>\<open>percentage\<close>); a stored record whose balance is
      \<^verbatim>\<open>None\<close> makes the product raise\<close>
  "calculate_loss_exposure d iid p =
     (let total_portfolio = 15000000;
          exposure = (\<lambda>balance. let loss_exposure = balance * p
                       in (loss_exposure, loss_exposure / total_portfolio * 100))
      in case latest_feature_record d iid of
           None \<Rightarrow> Inr (exposure 1000000)
         | Some feature_record \<Rightarrow>
             (case feature_store.current_balance feature_record of
                None \<Rightarrow> Inl TypeError
              | Some balance \<Rightarrow> Inr (exposure balance)))"

definition generate_risk_recommendations :: "risk_tier \<Rightarrow> risk_factor list \<Rightarrow> string list" where
  "generate_risk_recommendations tier factors =
     (let recommendations =
            (if tier = TIER_4 \<or> tier = TIER_5
             then [''Increase monitoring frequency to weekly'',
                   ''Schedule relationship manager call'',
                   ''Review account covenants'']
             else [])
          @ (if list_ex (\<lambda>f. factor f = ''recent_payment_delays'') factors
             then [''Investigate payment processing issues''] else [])
          @ (if list_ex (\<lambda>f. factor f = ''communication_sentiment_negative'') factors
             then [''Proactive outreach to address concerns''] else [])
      in if recommendations = [] then [''Continue standard monitoring'']
         else recommendations)"

definition trend_magnitude_of :: "int \<Rightarrow> int option \<Rightarrow> int" where
  \<comment> \<open>\<^verbatim>\<open>abs(risk_score - previous_score) if previous_score else 0\<close>\<close>
  "trend_magnitude_of score previous =
     (case previous of
        None \<Rightarrow> 0
      | Some prev \<Rightarrow> if prev = 0 then 0 else \<bar>score - prev\<bar>)"

definition assess_investor_default_risk ::
  "string \<Rightarrow> int \<Rightarrow> db \<Rightarrow> string \<Rightarrow> string \<Rightarrow> bool \<Rightarrow> (error + default_risk_response) \<times> db"
  where
  \<comment> \<open>\<^verbatim>\<open>uid\<close> is the hex string of the fresh uuid, \<^verbatim>\<open>now\<close> the clock's reading;
      the result pairs what the call returns or raises with the database after it\<close>
  "assess_investor_default_risk uid now d iid horizon include_trend =
     (case production_model d default_risk_model_id of
        None \<Rightarrow>
          (Inl (ValueError (''Default risk model '' @ default_risk_model_id @ '' not found'')), d)
      | Some model \<Rightarrow>
          (let features = extract_risk_features d iid;
               (probability, score) = predict_default_risk features;
               tier = calculate_risk_tier probability;
               (previous, tr) =
                 (if include_trend
                  then (let (ps, t) = calculate_risk_trend d iid score in (Some ps, t))
                  else (None, STABLE));
               factors = identify_risk_factors features
           in case calculate_loss_exposure d iid probability of
                Inl e \<Rightarrow> (Inl e, d)
              | Inr (loss_amount, loss_percentage) \<Rightarrow>
                  (let recommendations = generate_risk_recommendations tier factors;
                       prediction =
                         \<lparr> prediction_id = ''PRED_RISK_'' @ take 12 uid,
                           model_id = ai_model.model_id model,
                           risk_type = ''DEFAULT_RISK'',
                           risk_horizon = horizon,
                           investor_id = Some iid,
                           fund_id = None,
                           risk_probability = probability,
                           risk_tier = Some tier,
                           risk_score = score,
                           previous_risk_score = previous,
                           risk_trend = Some tr,
                           trend_magnitude = Some (trend_magnitude_of score previous),
                           top_risk_factors = Some factors,
                           contributing_metrics = None,
                           estimated_loss_exposure = Some loss_amount,
                           exposure_percentage = Some loss_percentage,
                           recommended_actions = recommendations,
                           prediction_timestamp = now \<rparr>
                   in (Inr \<lparr> default_risk_response.prediction_id = prediction_id prediction,
                             default_risk_response.investor_id = iid,
                             default_risk_response.risk_type = ''DEFAULT_RISK'',
                             default_risk_response.risk_horizon = horizon,
                             default_probability = probability,
                             default_risk_response.risk_tier = tier,
                             default_risk_response.risk_score = score,
                             previous_score = previous,
                             trend = tr,
                             magnitude = trend_magnitude_of score previous,
                             trend_period = ''30_days'',
                             default_risk_response.top_risk_factors = factors,
                             amount = loss_amount,
                             percentage_of_portfolio = loss_percentage,
                             default_risk_response.recommended_actions = recommendations,
                             default_risk_response.model_version = version model,
                             default_risk_response.prediction_timestamp =
                               prediction_timestamp prediction \<rparr>,
                       d\<lparr> risk_predictions := risk_predictions d @ [prediction] \<rparr>))))"

section \<open>Default-risk assessment under floating-point rounding\<close>

text \<open>
  Python computes the exact result of a floating-point operation and rounds it to the
  nearest double. The definitions of this section are those of the default-risk path with
  that rounding as a parameter \<^verbatim>\<open>fl\<close>: \<^verbatim>\<open>fl x\<close> is the double to which the real \<^verbatim>\<open>x\<close> is
  rounded. Every float operation is wrapped in \<^verbatim>\<open>fl\<close>, and a float literal is the rounding
  of its decimal. Integer arithmetic is exact, and an integer operand of a float operation
  is converted exactly (the integers of the service are far below 2^53). With the identity
  for \<^verbatim>\<open>fl\<close> these are the definitions of the preceding sections.
\<close>

definition generate_default_risk_features_fl :: "(real \<Rightarrow> real) \<Rightarrow> risk_features" where
  "generate_default_risk_features_fl fl =
     \<lparr> late_payment_count = 1,
       missed_payment_count = 0,
       on_time_payment_rate = fl (9 / 10),
       avg_payment_delay_days = fl (15 / 10),
       current_balance = 1000000,
       account_growth_rate = fl (8 / 100),
       leverage_ratio = fl (3 / 10),
       liquidity_risk = fl (15 / 100),
       recent_sentiment_score = fl (6 / 10),
       sentiment_trend = 0,
       communication_frequency = 5,
       portfolio_concentration = fl (4 / 10),
       portfolio_volatility = fl (18 / 100),
       diversification_score = fl (7 / 10) \<rparr>"

definition features_of_record_fl :: "(real \<Rightarrow> real) \<Rightarrow> feature_store \<Rightarrow> risk_features" where
  "features_of_record_fl fl feature_record =
     \<lparr> late_payment_count = py_or (feature_store.late_payment_count feature_record) 0,
       missed_payment_count = py_or (feature_store.missed_payment_count feature_record) 0,
       on_time_payment_rate =
         py_or (feature_store.on_time_payment_rate feature_record) (fl (9 / 10)),
       avg_payment_delay_days =
         py_or (feature_store.avg_payment_delay_days feature_record) (fl (15 / 10)),
       current_balance = py_or (feature_store.current_balance feature_record) 1000000,
       account_growth_rate =
         py_or (feature_store.account_growth_rate feature_record) (fl (8 / 100)),
       leverage_ratio = py_or (feature_store.leverage_ratio feature_record) (fl (3 / 10)),
       liquidity_risk = py_or (feature_store.liquidity_risk feature_record) (fl (15 / 100)),
       recent_sentiment_score =
         py_or (feature_store.recent_sentiment_score feature_record) (fl (6 / 10)),
       sentiment_trend = py_or (feature_store.sentiment_trend feature_record) 0,
       communication_frequency =
         py_or (feature_store.communication_frequency feature_record) 5,
       portfolio_concentration =
         py_or (feature_store.portfolio_concentration feature_record) (fl (4 / 10)),
       portfolio_volatility =
         py_or (feature_store.portfolio_volatility feature_record) (fl (18 / 100)),
       diversification_score =
         py_or (feature_store.diversification_score feature_record) (fl (7 / 10)) \<rparr>"

definition extract_risk_features_fl :: "(real \<Rightarrow> real) \<Rightarrow> db \<Rightarrow> string \<Rightarrow> risk_features" where
  "extract_risk_features_fl fl d iid =
     (case latest_feature_record d iid of
        None \<Rightarrow> generate_default_risk_features_fl fl
      | Some feature_record \<Rightarrow> features_of_record_fl fl feature_record)"

definition raw_risk_score_fl :: "(real \<Rightarrow> real) \<Rightarrow> risk_features \<Rightarrow> real" where
  \<comment> \<open>the local \<^verbatim>\<open>risk_score\<close> of \<^verbatim>\<open>_predict_default_risk\<close>. The two count scores are
      integers; the sum is taken from the left; \<^verbatim>\<open>max(0, x)\<close> is the integer 0 unless
      \<^verbatim>\<open>x\<close> is positive\<close>
  "raw_risk_score_fl fl f =
     (let late_score = late_payment_count f * 5;
          missed_score = missed_payment_count f * 15;
          bonus = fl (fl (1 - on_time_payment_rate f) * 30);
          lev_score = fl (leverage_ratio f * 20);
          gap = fl (fl (5 / 10) - recent_sentiment_score f);
          sent_score = (if 0 < gap then fl (gap * 25) else 0)
      in min 100
           (fl (fl (fl (of_int (late_score + missed_score) + bonus) + lev_score) + sent_score)))"

definition predict_default_risk_fl :: "(real \<Rightarrow> real) \<Rightarrow> risk_features \<Rightarrow> real \<times> int" where
  "predict_default_risk_fl fl f =
     (let raw = raw_risk_score_fl fl f;
          probability = fl (fl (raw / 100) * fl (25 / 100))
      in (probability, py_int raw))"

definition calculate_risk_tier_fl :: "(real \<Rightarrow> real) \<Rightarrow> real \<Rightarrow> risk_tier" where
  "calculate_risk_tier_fl fl p =
     (if p < fl (2 / 100) then TIER_1
      else if p < fl (5 / 100) then TIER_2
      else if p < fl (10 / 100) then TIER_3
      else if p < fl (20 / 100) then TIER_4
      else TIER_5)"

definition identify_risk_factors_fl :: "(real \<Rightarrow> real) \<Rightarrow> risk_features \<Rightarrow> risk_factor list" where
  "identify_risk_factors_fl fl f =
     (let factors =
            (if late_payment_count f > 2
             then [\<lparr> factor = ''recent_payment_delays'', weight = fl (28 / 100) \<rparr>] else [])
          @ (if account_growth_rate f < 0
             then [\<lparr> factor = ''account_balance_decline'', weight = fl (22 / 100) \<rparr>] else [])
          @ (if recent_sentiment_score f < fl (3 / 10)
             then [\<lparr> factor = ''communication_sentiment_negative'', weight = fl (18 / 100) \<rparr>]
             else [])
          @ (if leverage_ratio f > fl (5 / 10)
             then [\<lparr> factor = ''high_leverage_ratio'', weight = fl (15 / 100) \<rparr>] else []);
          factors' =
            (if factors = []
             then [\<lparr> factor = ''portfolio_volatility'', weight = fl (20 / 100) \<rparr>,
                   \<lparr> factor = ''market_conditions'', weight = fl (15 / 100) \<rparr>]
             else factors)
      in take 5 factors')"

definition calculate_loss_exposure_fl ::
  "(real \<Rightarrow> real) \<Rightarrow> db \<Rightarrow> string \<Rightarrow> real \<Rightarrow> error + real \<times> real" where
  "calculate_loss_exposure_fl fl d iid p =
     (let total_portfolio = 15000000;
          exposure = (\<lambda>balance. let loss_exposure = fl (balance * p)
                       in (loss_exposure, fl (fl (loss_exposure / total_portfolio) * 100)))
      in case latest_feature_record d iid of
           None \<Rightarrow> Inr (exposure 1000000)
         | Some feature_record \<Rightarrow>
             (case feature_store.current_balance feature_record of
                None \<Rightarrow> Inl TypeError
              | Some balance \<Rightarrow> Inr (exposure balance)))"

definition assess_investor_default_risk_fl ::
  "(real \<Rightarrow> real) \<Rightarrow> string \<Rightarrow> int \<Rightarrow> db \<Rightarrow> string \<Rightarrow> string \<Rightarrow> bool
   \<Rightarrow> (error + default_risk_response) \<times> db" where
  "assess_investor_default_risk_fl fl uid now d iid horizon include_trend =
     (case production_model d default_risk_model_id of
        None \<Rightarrow>
          (Inl (ValueError (''Default risk model '' @ default_risk_model_id @ '' not found'')), d)
      | Some model \<Rightarrow>
          (let features = extract_risk_features_fl fl d iid;
               (probability, score) = predict_default_risk_fl fl features;
               tier = calculate_risk_tier_fl fl probability;
               (previous, tr) =
                 (if include_trend
                  then (let (ps, t) = calculate_risk_trend d iid score in (Some ps, t))
                  else (None, STABLE));
               factors = identify_risk_factors_fl fl features
           in case calculate_loss_exposure_fl fl d iid probability of
                Inl e \<Rightarrow> (Inl e, d)
              | Inr (loss_amount, loss_percentage) \<Rightarrow>
                  (let recommendations = generate_risk_recommendations tier factors;
                       prediction =
                         \<lparr> prediction_id = ''PRED_RISK_'' @ take 12 uid,
                           model_id = ai_model.model_id model,
                           risk_type = ''DEFAULT_RISK'',
                           risk_horizon = horizon,
                           investor_id = Some iid,
                           fund_id = None,
                           risk_probability = probability,
                           risk_tier = Some tier,
                           risk_score = score,
                           previous_risk_score = previous,
                           risk_trend = Some tr,
                           trend_magnitude = Some (trend_magnitude_of score previous),
                           top_risk_factors = Some factors,
                           contributing_metrics = None,
                           estimated_loss_exposure = Some loss_amount,
                           exposure_percentage = Some loss_percentage,
                           recommended_actions = recommendations,
                           prediction_timestamp = now \<rparr>
                   in (Inr \<lparr> default_risk_response.prediction_id = prediction_id prediction,
                             default_risk_response.investor_id = iid,
                             default_risk_response.risk_type = ''DEFAULT_RISK'',
                             default_risk_response.risk_horizon = horizon,
                             default_probability = probability,
                             default_risk_response.risk_tier = tier,
                             default_risk_response.risk_score = score,
                             previous_score = previous,
                             trend = tr,
                             magnitude = trend_magnitude_of score previous,
                             trend_period = ''30_days'',
                             default_risk_response.top_risk_factors = factors,
                             amount = loss_amount,
                             percentage_of_portfolio = loss_percentage,
                             default_risk_response.recommended_actions = recommendations,
                             default_risk_response.model_version = version model,
                             default_risk_response.prediction_timestamp =
                               prediction_timestamp prediction \<rparr>,
                       d\<lparr> risk_predictions := risk_predictions d @ [prediction] \<rparr>))))"

section \<open>numpy on arrays\<close>

text \<open>
  An array is a list of numpy floats. A reduction over an array that holds a NaN is NaN;
  \<^term>\<open>those\<close> gives the finite values of an array when it holds none.
\<close>

definition and_then :: "error + 'a \<Rightarrow> ('a \<Rightarrow> error + 'b) \<Rightarrow> error + 'b" where
  \<comment> \<open>sequencing of two steps, the first of which may raise\<close>
  "and_then m f = (case m of Inl e \<Rightarrow> Inl e | Inr x \<Rightarrow> f x)"

definition np_mean :: "npfloat list \<Rightarrow> npfloat" where
  \<comment> \<open>\<^verbatim>\<open>np.mean\<close>; the mean of an empty array is NaN (with a warning)\<close>
  "np_mean a =
     (case those a of
        None \<Rightarrow> None
      | Some xs \<Rightarrow> if xs = [] then None else Some (sum_list xs / real (length xs)))"

definition np_std :: "npfloat list \<Rightarrow> npfloat" where
  \<comment> \<open>\<^verbatim>\<open>np.std\<close>: the population standard deviation\<close>
  "np_std a =
     (case those a of
        None \<Rightarrow> None
      | Some xs \<Rightarrow>
          if xs = [] then None
          else (let n = real (length xs); m = sum_list xs / n
                in Some (sqrt (sum_list (map (\<lambda>x. (x - m)\<^sup>2) xs) / n))))"

definition np_min :: "npfloat list \<Rightarrow> error + npfloat" where
  \<comment> \<open>\<^verbatim>\<open>np.min\<close> raises on an empty array\<close>
  "np_min a =
     (if a = [] then Inl (ValueError ''zero-size array to reduction operation minimum'')
      else case those a of
             None \<Rightarrow> Inr None
           | Some xs \<Rightarrow> Inr (Some (Min (set xs))))"

definition np_greater :: "npfloat list \<Rightarrow> real \<Rightarrow> bool list" where
  \<comment> \<open>\<^verbatim>\<open>a > c\<close>, elementwise; a comparison with NaN is false\<close>
  "np_greater a c = map (\<lambda>r. case r of None \<Rightarrow> False | Some x \<Rightarrow> c < x) a"

definition np_mean_bool :: "bool list \<Rightarrow> npfloat" where
  \<comment> \<open>\<^verbatim>\<open>np.mean\<close> of a boolean array: the fraction of true entries\<close>
  "np_mean_bool bs =
     (if bs = [] then None
      else Some (real (length (filter (\<lambda>b. b) bs)) / real (length bs)))"

definition interpolate :: "real list \<Rightarrow> real \<Rightarrow> real" where
  \<comment> \<open>linear interpolation in a sorted array at the virtual index \<^verbatim>\<open>h\<close>: between the
      entries at \<^verbatim>\<open>floor(h)\<close> and at the next index, clipped to the last\<close>
  "interpolate s h =
     (let lo = nat \<lfloor>h\<rfloor>;
          hi = min (lo + 1) (length s - 1);
          g = h - real lo
      in s ! lo + (s ! hi - s ! lo) * g)"

definition percentile_linear :: "real list \<Rightarrow> real \<Rightarrow> real" where
  \<comment> \<open>the default method of \<^verbatim>\<open>np.percentile\<close>: the sorted array interpolated at the
      virtual index \<^verbatim>\<open>(n - 1) * q / 100\<close>\<close>
  "percentile_linear xs q = interpolate (sort xs) (real (length xs - 1) * (q / 100))"

definition np_percentile :: "npfloat list \<Rightarrow> real \<Rightarrow> error + npfloat" where
  \<comment> \<open>\<^verbatim>\<open>np.percentile\<close> raises for \<^verbatim>\<open>q\<close> outside [0, 100] and, on indexing, for an
      empty array; of an array that holds a NaN it is NaN\<close>
  "np_percentile a q =
     (if q < 0 \<or> 100 < q then Inl (ValueError ''Percentiles must be in the range [0, 100]'')
      else case those a of
             None \<Rightarrow> Inr None
           | Some xs \<Rightarrow> if xs = [] then Inl IndexError else Inr (Some (percentile_linear xs q)))"

definition py_float_div :: "npfloat \<Rightarrow> npfloat \<Rightarrow> error + npfloat" where
  \<comment> \<open>\<^verbatim>\<open>a / b\<close> on Python floats: a zero divisor raises, NaN propagates\<close>
  "py_float_div a b =
     (if b = Some 0 then Inl ZeroDivisionError
      else Inr (case (a, b) of (Some x, Some y) \<Rightarrow> Some (x / y) | _ \<Rightarrow> None))"

section \<open>The process-wide random generator\<close>

text \<open>
  The state of numpy's global generator is the seed it was last given and the number of
  variates drawn since. The generator itself is a parameter \<^verbatim>\<open>g\<close> of the model:
  \<^verbatim>\<open>g s i\<close> is the \<^verbatim>\<open>i\<close>-th standard normal variate of the stream seeded with \<^verbatim>\<open>s\<close>.
\<close>

record rng_state =
  rng_seed :: nat
  rng_pos :: nat

definition np_random_seed :: "nat \<Rightarrow> rng_state \<Rightarrow> rng_state" where
  "np_random_seed s st = \<lparr> rng_seed = s, rng_pos = 0 \<rparr>"

definition np_random_normal ::
  "(nat \<Rightarrow> nat \<Rightarrow> real) \<Rightarrow> npfloat \<Rightarrow> real \<Rightarrow> nat \<Rightarrow> rng_state
   \<Rightarrow> (error + npfloat list) \<times> rng_state" where
  \<comment> \<open>\<^verbatim>\<open>np.random.normal(loc, scale, size)\<close>: \<^verbatim>\<open>loc + scale * z\<close> for the next
      \<^verbatim>\<open>size\<close> variates; a negative scale raises\<close>
  "np_random_normal g loc scale n st =
     (if scale < 0 then (Inl (ValueError ''scale < 0''), st)
      else (Inr (map (\<lambda>i. map_option (\<lambda>m. m + scale * g (rng_seed st) (rng_pos st + i)) loc)
                   [0..<n]),
            st\<lparr> rng_pos := rng_pos st + n \<rparr>))"

section \<open>Fund performance risk\<close>

definition extract_fund_features :: "string \<Rightarrow> fund_features" where
  "extract_fund_features fid =
     \<lparr> historical_returns = [8 / 100, 12 / 100, - (3 / 100), 15 / 100, 9 / 100],
       fund_features.volatility = 18 / 100,
       fund_features.sharpe_ratio = 95 / 100,
       fund_features.max_drawdown = - (12 / 100),
       correlation_sp500 = 65 / 100,
       asset_allocation =
         [(''stocks'', 60 / 100), (''bonds'', 30 / 100), (''alternatives'', 10 / 100)] \<rparr>"

definition mc_summary :: "npfloat list \<Rightarrow> error + mc_results" where
  \<comment> \<open>the dict \<^verbatim>\<open>_run_monte_carlo_simulation\<close> returns for the array it drew\<close>
  "mc_summary simulated_returns =
     and_then (np_min simulated_returns) (\<lambda>mn.
     and_then (np_percentile simulated_returns 5) (\<lambda>q5.
     and_then (np_percentile simulated_returns 25) (\<lambda>q25.
     and_then (np_percentile simulated_returns 50) (\<lambda>q50.
     and_then (np_percentile simulated_returns 75) (\<lambda>q75.
     and_then (np_percentile simulated_returns 95) (\<lambda>q95.
       Inr \<lparr> returns = simulated_returns,
             expected_return = np_mean simulated_returns,
             volatility = np_std simulated_returns,
             max_drawdown = mn,
             prob_positive = np_mean_bool (np_greater simulated_returns 0),
             p5 = q5, p25 = q25, p50 = q50, p75 = q75, p95 = q95 \<rparr>))))))"

definition run_monte_carlo_simulation ::
  "(nat \<Rightarrow> nat \<Rightarrow> real) \<Rightarrow> fund_features \<Rightarrow> rng_state \<Rightarrow> (error + mc_results) \<times> rng_state"
  where
  "run_monte_carlo_simulation g features st =
     (let mean_return = np_mean (map Some (historical_returns features));
          vol = fund_features.volatility features;
          st1 = np_random_seed 42 st;
          (drawn, st2) = np_random_normal g mean_return vol 10000 st1
      in (and_then drawn mc_summary, st2))"

definition calculate_var :: "npfloat list \<Rightarrow> real \<Rightarrow> error + npfloat" where
  "calculate_var rs confidence = np_percentile rs ((1 - confidence) * 100)"

definition np_less_equal :: "npfloat \<Rightarrow> npfloat \<Rightarrow> bool" where
  \<comment> \<open>\<^verbatim>\<open>r <= v\<close>; a comparison with NaN is false\<close>
  "np_less_equal r v = (case (r, v) of (Some x, Some y) \<Rightarrow> x \<le> y | _ \<Rightarrow> False)"

definition np_less :: "npfloat \<Rightarrow> npfloat \<Rightarrow> bool" where
  "np_less r v = (case (r, v) of (Some x, Some y) \<Rightarrow> x < y | _ \<Rightarrow> False)"

definition calculate_cvar :: "npfloat list \<Rightarrow> real \<Rightarrow> error + npfloat" where
  "calculate_cvar rs confidence =
     and_then (calculate_var rs confidence) (\<lambda>var.
       Inr (np_mean (filter (\<lambda>r. np_less_equal r var) rs)))"

definition np_sub :: "npfloat \<Rightarrow> npfloat \<Rightarrow> npfloat" where
  "np_sub a b = (case (a, b) of (Some x, Some y) \<Rightarrow> Some (x - y) | _ \<Rightarrow> None)"

definition calculate_sharpe_ratio :: "mc_results \<Rightarrow> error + npfloat" where
  "calculate_sharpe_ratio mc =
     (let risk_free_rate = Some (2 / 100)
      in py_float_div (np_sub (expected_return mc) risk_free_rate) (volatility mc))"

definition calculate_sortino_ratio :: "mc_results \<Rightarrow> error + npfloat" where
  "calculate_sortino_ratio mc =
     (let risk_free_rate = Some (2 / 100);
          downside_returns = filter (\<lambda>r. np_less r risk_free_rate) (returns mc);
          downside_std =
            (if length downside_returns > 0 then np_std downside_returns else volatility mc)
      in py_float_div (np_sub (expected_return mc) risk_free_rate) downside_std)"

definition scenario_params :: "(string \<times> scenario_param) list" where
  "scenario_params =
     [(''BULL'', \<lparr> return = 15 / 100, scenario_param.volatility = 12 / 100 \<rparr>),
      (''BASE'', \<lparr> return = 8 / 100, scenario_param.volatility = 18 / 100 \<rparr>),
      (''BEAR'', \<lparr> return = - (15 / 100), scenario_param.volatility = 25 / 100 \<rparr>),
      (''TAIL_EVENT'', \<lparr> return = - (30 / 100), scenario_param.volatility = 40 / 100 \<rparr>)]"

definition dict_get :: "('k \<times> 'v) list \<Rightarrow> 'k \<Rightarrow> 'v \<Rightarrow> 'v" where
  \<comment> \<open>\<^verbatim>\<open>d.get(k, default)\<close>\<close>
  "dict_get d k dflt = (case map_of d k of None \<Rightarrow> dflt | Some v \<Rightarrow> v)"

definition scenario_entry :: "string \<Rightarrow> scenario_result" where
  \<comment> \<open>the body of the loop of \<^verbatim>\<open>_run_scenario_analysis\<close>; \<^verbatim>\<open>scenario_params["BASE"]\<close>
      is evaluated before the lookup and the key is in the table\<close>
  "scenario_entry sc =
     (let params = dict_get scenario_params sc (the (map_of scenario_params ''BASE''))
      in \<lparr> scenario = sc,
           scenario_result.expected_return = return params,
           scenario_result.volatility = scenario_param.volatility params,
           scenario_result.probability = (if sc = ''BASE'' then 25 / 100 else 10 / 100) \<rparr>)"

fun scenario_loop :: "scenario_result list \<Rightarrow> string list \<Rightarrow> scenario_result list" where
  "scenario_loop results [] = results"
| "scenario_loop results (sc # scs) = scenario_loop (results @ [scenario_entry sc]) scs"

definition run_scenario_analysis :: "fund_features \<Rightarrow> string list \<Rightarrow> scenario_result list" where
  "run_scenario_analysis features scenarios = scenario_loop [] scenarios"

definition run_stress_tests :: "fund_features \<Rightarrow> stress_test list" where
  "run_stress_tests features =
     [\<lparr> test = ''2008_FINANCIAL_CRISIS'', stress_test.expected_return = - (35 / 100),
        probability = 2 / 100 \<rparr>,
      \<lparr> test = ''INTEREST_RATE_SHOCK'', stress_test.expected_return = - (12 / 100),
        probability = 15 / 100 \<rparr>,
      \<lparr> test = ''LIQUIDITY_CRISIS'', stress_test.expected_return = - (18 / 100),
        probability = 8 / 100 \<rparr>]"

definition generate_fund_risk_recommendations :: "risk_metrics \<Rightarrow> string list" where
  "generate_fund_risk_recommendations rm =
     (let recommendations =
            (if np_less (risk_metrics.sharpe_ratio rm) (Some (5 / 10))
             then [''Consider portfolio rebalancing for better risk-adjusted returns'']
             else [])
          @ (if np_less (risk_metrics.max_drawdown rm) (Some (- (20 / 100)))
             then [''Review downside protection strategies''] else [])
          @ (if np_less (probability_positive_return rm) (Some (75 / 100))
             then [''Evaluate defensive positioning''] else [])
      in if recommendations = [] then [''Maintain current risk management approach'']
         else recommendations)"

definition fund_risk_prediction ::
  "string \<Rightarrow> int \<Rightarrow> ai_model \<Rightarrow> string \<Rightarrow> mc_results \<Rightarrow> npfloat \<Rightarrow> npfloat \<Rightarrow> risk_metrics
   \<Rightarrow> error + risk_prediction" where
  \<comment> \<open>the \<^verbatim>\<open>RiskPrediction\<close> row of the fund path; \<^verbatim>\<open>int\<close> of a NaN raises\<close>
  "fund_risk_prediction uid now model fid mc v95 cv95 rm =
     (case prob_positive mc of
        None \<Rightarrow> Inl (ValueError ''cannot convert float NaN to integer'')
      | Some pp \<Rightarrow>
          Inr \<lparr> prediction_id = ''PRED_FUND_RISK_'' @ take 12 uid,
                model_id = ai_model.model_id model,
                risk_type = ''FUND_PERFORMANCE_RISK'',
                risk_horizon = ''12M'',
                investor_id = None,
                fund_id = Some fid,
                risk_probability = 1 - pp,
                risk_tier = None,
                risk_score = py_int ((1 - pp) * 100),
                previous_risk_score = None,
                risk_trend = None,
                trend_magnitude = None,
                top_risk_factors = None,
                contributing_metrics =
                  Some [(''var_95'', v95), (''cvar_95'', cv95),
                        (''volatility'', volatility mc),
                        (''max_drawdown'', max_drawdown mc)],
                estimated_loss_exposure = None,
                exposure_percentage = None,
                recommended_actions = generate_fund_risk_recommendations rm,
                prediction_timestamp = now \<rparr>)"

definition fund_risk_steps ::
  "string \<Rightarrow> int \<Rightarrow> ai_model \<Rightarrow> string \<Rightarrow> fund_features \<Rightarrow> string list option \<Rightarrow> mc_results
   \<Rightarrow> error + risk_prediction \<times> fund_risk_response" where
  \<comment> \<open>\<^verbatim>\<open>assess_fund_performance_risk\<close> from the simulation's result to the row and the
      response, before the row is added\<close>
  "fund_risk_steps uid now model fid features scenarios mc =
     and_then (calculate_var (returns mc) (95 / 100)) (\<lambda>v95.
     and_then (calculate_var (returns mc) (99 / 100)) (\<lambda>v99.
     and_then (calculate_cvar (returns mc) (95 / 100)) (\<lambda>cv95.
       let scs = (case scenarios of
                    None \<Rightarrow> [''BULL'', ''BASE'', ''BEAR'', ''TAIL_EVENT'']
                  | Some l \<Rightarrow> if l = [] then [''BULL'', ''BASE'', ''BEAR'', ''TAIL_EVENT'']
                             else l);
           scenario_results = run_scenario_analysis features scs
       in
     and_then (calculate_sharpe_ratio mc) (\<lambda>sharpe.
     and_then (calculate_sortino_ratio mc) (\<lambda>sortino.
       let rm = \<lparr> expected_return_1y = expected_return mc,
                  risk_metrics.volatility = volatility mc,
                  var_95 = v95,
                  var_99 = v99,
                  cvar_95 = cv95,
                  risk_metrics.sharpe_ratio = sharpe,
                  sortino_ratio = sortino,
                  risk_metrics.max_drawdown = max_drawdown mc,
                  probability_positive_return = prob_positive mc \<rparr>
       in
     and_then (fund_risk_prediction uid now model fid mc v95 cv95 rm) (\<lambda>prediction.
       Inr (prediction,
            \<lparr> fund_risk_response.prediction_id = prediction_id prediction,
              fund_risk_response.fund_id = fid,
              risk_metrics = rm,
              return_distribution =
                \<lparr> return_distribution.expected_return = expected_return mc,
                  percentile_5 = p5 mc,
                  percentile_25 = p25 mc,
                  percentile_50 = p50 mc,
                  percentile_75 = p75 mc,
                  percentile_95 = p95 mc \<rparr>,
              scenario_analysis = scenario_results,
              stress_tests = run_stress_tests features,
              fund_risk_response.model_version = version model,
              fund_risk_response.prediction_timestamp =
                prediction_timestamp prediction \<rparr>)))))))"

definition assess_fund_performance_risk ::
  "(nat \<Rightarrow> nat \<Rightarrow> real) \<Rightarrow> string \<Rightarrow> int \<Rightarrow> db \<Rightarrow> rng_state \<Rightarrow> string \<Rightarrow> string list option
   \<Rightarrow> (error + fund_risk_response) \<times> db \<times> rng_state" where
  "assess_fund_performance_risk g uid now d st fid scenarios =
     (case production_model d fund_risk_model_id of
        None \<Rightarrow>
          (Inl (ValueError (''Fund risk model '' @ fund_risk_model_id @ '' not found'')), d, st)
      | Some model \<Rightarrow>
          (let features = extract_fund_features fid;
               (simulated, st') = run_monte_carlo_simulation g features st
           in case and_then simulated (fund_risk_steps uid now model fid features scenarios) of
                Inl e \<Rightarrow> (Inl e, d, st')
              | Inr (prediction, response) \<Rightarrow>
                  (Inr response,
                   d\<lparr> risk_predictions := risk_predictions d @ [prediction] \<rparr>,
                   st')))"


section \<open>Example inputs\<close>

text \<open>Concrete rows, databases and arrays on which the theorems below are evaluated.\<close>

definition stored_zero_record :: feature_store where
  "stored_zero_record =
     \<lparr> feature_timestamp = 100,
       entity_type = ''INVESTOR'',
       entity_id = ''INV1'',
       feature_store.late_payment_count = Some 2,
       feature_store.missed_payment_count = None,
       feature_store.on_time_payment_rate = Some 0,
       feature_store.avg_payment_delay_days = None,
       feature_store.current_balance = Some 0,
       feature_store.account_growth_rate = None,
       feature_store.leverage_ratio = Some (1 / 2),
       feature_store.liquidity_risk = None,
       feature_store.recent_sentiment_score = None,
       feature_store.sentiment_trend = None,
       feature_store.communication_frequency = None,
       feature_store.portfolio_concentration = None,
       feature_store.portfolio_volatility = None,
       feature_store.diversification_score = None \<rparr>"

definition stored_zero_db :: db where
  "stored_zero_db =
     \<lparr> ai_models = [], feature_rows = [stored_zero_record], risk_predictions = [] \<rparr>"

definition prior_assessment :: risk_prediction where
  "prior_assessment =
     \<lparr> prediction_id = ''PRED_RISK_000000000001'',
       model_id = ''DEFAULT_RISK_NN_V2.3'',
       risk_type = ''DEFAULT_RISK'',
       risk_horizon = ''12M'',
       investor_id = Some ''INV1'',
       fund_id = None,
       risk_probability = 25 / 1000,
       risk_tier = Some TIER_2,
       risk_score = 10,
       previous_risk_score = Some 10,
       risk_trend = Some STABLE,
       trend_magnitude = Some 0,
       top_risk_factors = Some [],
       contributing_metrics = None,
       estimated_loss_exposure = Some 25000,
       exposure_percentage = Some (1 / 6),
       recommended_actions = [''Continue standard monitoring''],
       prediction_timestamp = 100 \<rparr>"

definition staging_model :: ai_model where
  "staging_model =
     \<lparr> ai_model.model_id = ''DEFAULT_RISK_NN_V2.3'', status = Some ''STAGING'',
       version = Some ''2.3'' \<rparr>"

definition staging_db :: db where
  "staging_db =
     \<lparr> ai_models = [staging_model], feature_rows = [], risk_predictions = [prior_assessment] \<rparr>"

definition production_default_model :: ai_model where
  "production_default_model =
     \<lparr> ai_model.model_id = ''DEFAULT_RISK_NN_V2.3'', status = Some ''PRODUCTION'',
       version = Some ''2.3'' \<rparr>"

definition leveraged_record :: feature_store where
  "leveraged_record =
     \<lparr> feature_timestamp = 100,
       entity_type = ''INVESTOR'',
       entity_id = ''INV1'',
       feature_store.late_payment_count = Some 1,
       feature_store.missed_payment_count = Some 0,
       feature_store.on_time_payment_rate = Some (9 / 10),
       feature_store.avg_payment_delay_days = None,
       feature_store.current_balance = Some 2000000,
       feature_store.account_growth_rate = None,
       feature_store.leverage_ratio = Some (34 / 100),
       feature_store.liquidity_risk = None,
       feature_store.recent_sentiment_score = Some (6 / 10),
       feature_store.sentiment_trend = None,
       feature_store.communication_frequency = None,
       feature_store.portfolio_concentration = None,
       feature_store.portfolio_volatility = None,
       feature_store.diversification_score = None \<rparr>"

definition leveraged_db :: db where
  "leveraged_db =
     \<lparr> ai_models = [production_default_model], feature_rows = [leveraged_record],
       risk_predictions = [] \<rparr>"

definition production_fund_model :: ai_model where
  "production_fund_model =
     \<lparr> ai_model.model_id = ''FUND_RISK_MC_V1.5'', status = Some ''PRODUCTION'',
       version = Some ''1.5'' \<rparr>"

definition seed_stream :: "nat \<Rightarrow> nat \<Rightarrow> real" where
  \<comment> \<open>a generator whose every variate is its seed: it tells the streams of two seeds apart\<close>
  "seed_stream s i = real s"

definition fund_model_db :: db where
  "fund_model_db =
     \<lparr> ai_models = [production_fund_model], feature_rows = [], risk_predictions = [] \<rparr>"

definition three_level_stream :: "nat \<Rightarrow> nat \<Rightarrow> real" where
  \<comment> \<open>a generator with three levels: a quarter of the first 10000 variates is -2, a
      quarter is -1, half are 1\<close>
  "three_level_stream s i = (if i < 2500 then - 2 else if i < 5000 then - 1 else 1)"

definition three_level_returns :: "real list" where
  \<comment> \<open>the samples drawn from \<^const>\<open>three_level_stream\<close> around the mean 0.082 with
      volatility 0.18\<close>
  "three_level_returns =
     replicate 2500 (- (278 / 1000)) @ replicate 2500 (- (98 / 1000)) @ replicate 5000 (262 / 1000)"

definition three_level_mc :: mc_results where
  "three_level_mc =
     \<lparr> returns = map Some three_level_returns,
       expected_return = Some (37 / 1000),
       volatility = Some (sqrt (2187 / 40000)),
       max_drawdown = Some (- (278 / 1000)),
       prob_positive = Some (1 / 2),
       p5 = Some (- (278 / 1000)),
       p25 = Some (- (143 / 1000)),
       p50 = Some (82 / 1000),
       p75 = Some (262 / 1000),
       p95 = Some (262 / 1000) \<rparr>"

definition late_payer_record :: feature_store where
  "late_payer_record =
     \<lparr> feature_timestamp = 150,
       entity_type = ''INVESTOR'',
       entity_id = ''INV1'',
       feature_store.late_payment_count = Some 4,
       feature_store.missed_payment_count = Some 0,
       feature_store.on_time_payment_rate = Some (9 / 10),
       feature_store.avg_payment_delay_days = None,
       feature_store.current_balance = Some 500000,
       feature_store.account_growth_rate = None,
       feature_store.leverage_ratio = Some (3 / 10),
       feature_store.liquidity_risk = None,
       feature_store.recent_sentiment_score = Some (6 / 10),
       feature_store.sentiment_trend = None,
       feature_store.communication_frequency = None,
       feature_store.portfolio_concentration = None,
       feature_store.portfolio_volatility = None,
       feature_store.diversification_score = None \<rparr>"

definition late_payer_db :: db where
  "late_payer_db =
     \<lparr> ai_models = [production_default_model], feature_rows = [late_payer_record],
       risk_predictions = [prior_assessment] \<rparr>"

section \<open>Theorems\<close>

lemma scenario_contributions:
  "late_payment_score scenario_features = 15"
  "missed_payment_score scenario_features = 0"
  "on_time_bonus scenario_features = 45 / 10"
  "leverage_score scenario_features = 6"
  "sentiment_score scenario_features = 0"
  by (simp_all add: scenario_features_def generate_default_risk_features_def
      late_payment_score_def missed_payment_score_def on_time_bonus_def
      leverage_score_def sentiment_score_def)

lemma scenario_raw_score: "raw_risk_score scenario_features = 255 / 10"
  by (simp add: raw_risk_score_def scenario_contributions)

lemma py_int_255: "py_int (51 / 2) = 25"
  by (simp add: py_int_def floor_eq_iff)

text \<open>
  C4, as stated, fails: for the worked example the scorer returns the integer score 25 and
  the probability 0.06375, not 26 and 0.065, because the raw score 25.5 is truncated by
  \<^verbatim>\<open>int\<close> and the probability is taken from the raw score.
\<close>

theorem C4_scenario_counterexample:
  "predict_default_risk scenario_features \<noteq> (65 / 1000, 26)"
  by (simp add: predict_default_risk_def scenario_raw_score py_int_255)

text \<open>
  C4 (amended): for the worked example the contributions are 15, 0, 4.5, 6 and 0 with sum
  25.5; the scorer returns the truncated integer score 25 and the probability 0.06375;
  the tier of that probability is TIER_3.
\<close>

theorem C4_scenario_amended:
  "late_payment_score scenario_features = 15
   \<and> missed_payment_score scenario_features = 0
   \<and> on_time_bonus scenario_features = 45 / 10
   \<and> leverage_score scenario_features = 6
   \<and> sentiment_score scenario_features = 0
   \<and> raw_risk_score scenario_features = 255 / 10
   \<and> predict_default_risk scenario_features = (6375 / 100000, 25)
   \<and> calculate_risk_tier (fst (predict_default_risk scenario_features)) = TIER_3"
  by (simp add: predict_default_risk_def scenario_raw_score py_int_255
      scenario_contributions calculate_risk_tier_def)

lemma py_or_falsy: "py_or x d = (if falsy x then d else the x)"
  by (auto simp: py_or_def falsy_def split: option.splits)

lemma py_or_nonzero: "d \<noteq> 0 \<Longrightarrow> py_or x d \<noteq> 0"
  by (auto simp: py_or_def split: option.splits)

text \<open>
  C9: when a stored feature record exists, every field of the extracted feature vector is
  the stored value unless that value is \<^verbatim>\<open>None\<close> or zero, and is the field's hard-coded
  default then. The fields whose default is not zero (among them three of the scorer's
  inputs and the balance) are therefore never zero after extraction.
\<close>

theorem C9_falsy_fields_take_defaults:
  assumes "latest_feature_record d iid = Some r"
  shows "extract_risk_features d iid =
     \<lparr> late_payment_count =
         (if falsy (feature_store.late_payment_count r) then 0
          else the (feature_store.late_payment_count r)),
       missed_payment_count =
         (if falsy (feature_store.missed_payment_count r) then 0
          else the (feature_store.missed_payment_count r)),
       on_time_payment_rate =
         (if falsy (feature_store.on_time_payment_rate r) then 9 / 10
          else the (feature_store.on_time_payment_rate r)),
       avg_payment_delay_days =
         (if falsy (feature_store.avg_payment_delay_days r) then 15 / 10
          else the (feature_store.avg_payment_delay_days r)),
       current_balance =
         (if falsy (feature_store.current_balance r) then 1000000
          else the (feature_store.current_balance r)),
       account_growth_rate =
         (if falsy (feature_store.account_growth_rate r) then 8 / 100
          else the (feature_store.account_growth_rate r)),
       leverage_ratio =
         (if falsy (feature_store.leverage_ratio r) then 3 / 10
          else the (feature_store.leverage_ratio r)),
       liquidity_risk =
         (if falsy (feature_store.liquidity_risk r) then 15 / 100
          else the (feature_store.liquidity_risk r)),
       recent_sentiment_score =
         (if falsy (feature_store.recent_sentiment_score r) then 6 / 10
          else the (feature_store.recent_sentiment_score r)),
       sentiment_trend =
         (if falsy (feature_store.sentiment_trend r) then 0
          else the (feature_store.sentiment_trend r)),
       communication_frequency =
         (if falsy (feature_store.communication_frequency r) then 5
          else the (feature_store.communication_frequency r)),
       portfolio_concentration =
         (if falsy (feature_store.portfolio_concentration r) then 4 / 10
          else the (feature_store.portfolio_concentration r)),
       portfolio_volatility =
         (if falsy (feature_store.portfolio_volatility r) then 18 / 100
          else the (feature_store.portfolio_volatility r)),
       diversification_score =
         (if falsy (feature_store.diversification_score r) then 7 / 10
          else the (feature_store.diversification_score r)) \<rparr>
   \<and> on_time_payment_rate (extract_risk_features d iid) \<noteq> 0
   \<and> leverage_ratio (extract_risk_features d iid) \<noteq> 0
   \<and> recent_sentiment_score (extract_risk_features d iid) \<noteq> 0
   \<and> current_balance (extract_risk_features d iid) \<noteq> 0"
proof -
  have e: "extract_risk_features d iid = features_of_record r"
    using assms by (simp add: extract_risk_features_def)
  show ?thesis
    unfolding e
    apply (intro conjI)
    subgoal by (simp add: features_of_record_def py_or_falsy)
    subgoal by (simp add: features_of_record_def py_or_nonzero)
    subgoal by (simp add: features_of_record_def py_or_nonzero)
    subgoal by (simp add: features_of_record_def py_or_nonzero)
    subgoal by (simp add: features_of_record_def py_or_nonzero)
    done
qed

lemma stored_zero_latest:
  "latest_feature_record stored_zero_db ''INV1'' = Some stored_zero_record"
  by (simp add: latest_feature_record_def stored_zero_db_def stored_zero_record_def
      order_by_desc_def first_def)

text \<open>
  C9 at a record that stores an on-time rate of 0.0 and a balance of 0: they are read as 0.9
  and 1000000; the stored count 2 and leverage 0.5 are kept.
\<close>

theorem C9_witness:
  "latest_feature_record stored_zero_db ''INV1'' = Some stored_zero_record
   \<and> on_time_payment_rate (extract_risk_features stored_zero_db ''INV1'') = 9 / 10
   \<and> current_balance (extract_risk_features stored_zero_db ''INV1'') = 1000000
   \<and> late_payment_count (extract_risk_features stored_zero_db ''INV1'') = 2
   \<and> leverage_ratio (extract_risk_features stored_zero_db ''INV1'') = 1 / 2"
  using C9_falsy_fields_take_defaults [OF stored_zero_latest]
  by (simp add: stored_zero_latest stored_zero_record_def falsy_def)

lemma first_filter_None: "first (filter P xs) = None \<longleftrightarrow> \<not> list_ex P xs"
  by (induction xs) (auto simp: first_def)

text \<open>
  C8: when no row of the model table has the default-risk model id and the status
  \<^verbatim>\<open>PRODUCTION\<close>, the assessment raises the \<^verbatim>\<open>ValueError\<close> that reports the missing
  model, and the database after the call is the database before it.
\<close>

theorem C8_no_model_no_write:
  assumes "\<not> list_ex (\<lambda>m. ai_model.model_id m = default_risk_model_id
                          \<and> status m = Some ''PRODUCTION'') (ai_models d)"
  shows "assess_investor_default_risk uid now d iid horizon include_trend =
           (Inl (ValueError ''Default risk model DEFAULT_RISK_NN_V2.3 not found''), d)"
proof -
  have "production_model d default_risk_model_id = None"
    using assms by (simp add: production_model_def first_filter_None)
  then show ?thesis
    by (simp add: assess_investor_default_risk_def default_risk_model_id_def)
qed

text \<open>
  C8 at a database whose only default-risk model is in status \<^verbatim>\<open>STAGING\<close>.
\<close>

theorem C8_witness:
  "\<not> list_ex (\<lambda>m. ai_model.model_id m = default_risk_model_id
                          \<and> status m = Some ''PRODUCTION'') (ai_models staging_db)
   \<and> assess_investor_default_risk ''0123456789abcdef0123456789abcdef'' 200 staging_db
        ''INV1'' ''12M'' True =
       (Inl (ValueError ''Default risk model DEFAULT_RISK_NN_V2.3 not found''), staging_db)"
proof -
  have h: "\<not> list_ex (\<lambda>m. ai_model.model_id m = default_risk_model_id
                          \<and> status m = Some ''PRODUCTION'') (ai_models staging_db)"
    by (simp add: staging_db_def staging_model_def)
  show ?thesis
    using h C8_no_model_no_write [OF h] by simp
qed

lemma scenario_loop_map: "scenario_loop results scs = results @ map scenario_entry scs"
  by (induction scs arbitrary: results) auto

lemma run_scenario_analysis_map: "run_scenario_analysis f scs = map scenario_entry scs"
  by (simp add: run_scenario_analysis_def scenario_loop_map)

lemma scenario_entry_label: "scenario (scenario_entry sc) = sc"
  by (simp add: scenario_entry_def Let_def)

lemma scenario_entry_unknown:
  "sc \<notin> set [''BULL'', ''BASE'', ''BEAR'', ''TAIL_EVENT''] \<Longrightarrow>
   scenario_entry sc =
     \<lparr> scenario = sc, scenario_result.expected_return = 8 / 100,
       scenario_result.volatility = 18 / 100, scenario_result.probability = 10 / 100 \<rparr>"
  by (simp add: scenario_entry_def dict_get_def scenario_params_def)

lemma scenario_entry_probability:
  "scenario_result.probability (scenario_entry sc) = 25 / 100 \<longleftrightarrow> sc = ''BASE''"
  by (simp add: scenario_entry_def Let_def)

text \<open>
  C10: scenario analysis returns one entry per requested name, labelled with that name and
  in the order of the request. An entry whose name is none of BULL, BASE, BEAR and
  TAIL_EVENT carries the BASE parameters (expected return 0.08, volatility 0.18) and the
  probability 0.10; an entry has the probability 0.25 exactly when its name is BASE.
\<close>

theorem C10_unknown_scenario_gets_base:
  "map scenario (run_scenario_analysis f scs) = scs
   \<and> (\<forall>r \<in> set (run_scenario_analysis f scs).
        (scenario r \<notin> set [''BULL'', ''BASE'', ''BEAR'', ''TAIL_EVENT'']
           \<longrightarrow> scenario_result.expected_return r = 8 / 100
               \<and> scenario_result.volatility r = 18 / 100
               \<and> scenario_result.probability r = 10 / 100)
        \<and> (scenario_result.probability r = 25 / 100 \<longleftrightarrow> scenario r = ''BASE''))"
proof (intro conjI ballI)
  show "map scenario (run_scenario_analysis f scs) = scs"
    by (simp add: run_scenario_analysis_map scenario_entry_label comp_def)
next
  fix r assume "r \<in> set (run_scenario_analysis f scs)"
  then obtain sc where sc: "r = scenario_entry sc"
    by (auto simp: run_scenario_analysis_map)
  show "scenario r \<notin> set [''BULL'', ''BASE'', ''BEAR'', ''TAIL_EVENT'']
           \<longrightarrow> scenario_result.expected_return r = 8 / 100
               \<and> scenario_result.volatility r = 18 / 100
               \<and> scenario_result.probability r = 10 / 100"
  proof
    assume "scenario r \<notin> set [''BULL'', ''BASE'', ''BEAR'', ''TAIL_EVENT'']"
    then have "sc \<notin> set [''BULL'', ''BASE'', ''BEAR'', ''TAIL_EVENT'']"
      unfolding sc scenario_entry_label .
    from scenario_entry_unknown [OF this]
    show "scenario_result.expected_return r = 8 / 100
               \<and> scenario_result.volatility r = 18 / 100
               \<and> scenario_result.probability r = 10 / 100"
      by (simp add: sc)
  qed
  show "scenario_result.probability r = 25 / 100 \<longleftrightarrow> scenario r = ''BASE''"
    by (simp only: sc scenario_entry_probability scenario_entry_label)
qed

text \<open>
  C10 at the request \<^verbatim>\<open>["CRASH", "BASE"]\<close>.
\<close>

theorem C10_witness:
  "run_scenario_analysis (extract_fund_features ''FUND1'') [''CRASH'', ''BASE''] =
     [\<lparr> scenario = ''CRASH'', scenario_result.expected_return = 8 / 100,
        scenario_result.volatility = 18 / 100, scenario_result.probability = 10 / 100 \<rparr>,
      \<lparr> scenario = ''BASE'', scenario_result.expected_return = 8 / 100,
        scenario_result.volatility = 18 / 100, scenario_result.probability = 25 / 100 \<rparr>]"
  using C10_unknown_scenario_gets_base [of "extract_fund_features ''FUND1''" "[''CRASH'', ''BASE'']"]
  by (simp add: run_scenario_analysis_map scenario_entry_def dict_get_def scenario_params_def)

lemma leveraged_latest: "latest_feature_record leveraged_db ''INV1'' = Some leveraged_record"
  by (simp add: latest_feature_record_def leveraged_db_def leveraged_record_def
      order_by_desc_def first_def)

lemma leveraged_model:
  "production_model leveraged_db default_risk_model_id = Some production_default_model"
  by (simp add: production_model_def leveraged_db_def production_default_model_def
      default_risk_model_id_def first_def)

lemma leveraged_raw: "raw_risk_score (features_of_record leveraged_record) = 148 / 10"
  by (simp add: raw_risk_score_def features_of_record_def leveraged_record_def py_or_def
      late_payment_score_def missed_payment_score_def on_time_bonus_def
      leverage_score_def sentiment_score_def)

lemma py_int_148: "py_int (74 / 5) = 14"
  by (simp add: py_int_def floor_eq_iff)

lemma leveraged_predict:
  "predict_default_risk (features_of_record leveraged_record) = (37 / 1000, 14)"
  by (simp add: predict_default_risk_def leveraged_raw py_int_148)

lemma leveraged_trend: "calculate_risk_trend leveraged_db ''INV1'' s = (s, STABLE)"
  by (simp add: calculate_risk_trend_def leveraged_db_def order_by_desc_def offset_def
      first_def)

lemma leveraged_exposure:
  "calculate_loss_exposure leveraged_db ''INV1'' p = Inr (2000000 * p, 2000000 * p / 15000000 * 100)"
  by (simp add: calculate_loss_exposure_def leveraged_latest Let_def leveraged_record_def)

lemma leveraged_assess_db:
  "map (\<lambda>p. (risk_score p, risk_probability p))
     (risk_predictions (snd (assess_investor_default_risk ''0123456789abcdef0123456789abcdef''
        200 leveraged_db ''INV1'' ''12M'' True))) =
   map (\<lambda>p. (risk_score p, risk_probability p)) (risk_predictions leveraged_db)
   @ [(14, 37 / 1000)]"
  by (simp add: assess_investor_default_risk_def leveraged_model extract_risk_features_def
      leveraged_latest leveraged_predict leveraged_trend leveraged_exposure Let_def)

lemma leveraged_no_predictions: "risk_predictions leveraged_db = []"
  by (simp add: leveraged_db_def)

lemma py_round_148: "py_round (74 / 5) = 15"
proof -
  have "\<lfloor>74 / 5 :: real\<rfloor> = 14" by (simp add: floor_eq_iff)
  then show ?thesis by (simp add: py_round_def Let_def)
qed

text \<open>
  C1, as stated, fails on the default-risk path: for an investor whose stored leverage is
  0.34 (one late payment, on-time rate 0.9, sentiment 0.6) the raw score is 14.8; the
  stored score is 14, while rounding the stored probability 0.037 divided by the cap 0.25
  and multiplied by 100 gives 15.
\<close>

theorem C1_score_is_not_rounded:
  "map (\<lambda>p. (risk_score p, py_round (risk_probability p / (25 / 100) * 100)))
     (risk_predictions (snd (assess_investor_default_risk ''0123456789abcdef0123456789abcdef''
        200 leveraged_db ''INV1'' ''12M'' True))) = [(14, 15)]"
proof -
  have eq: "map (\<lambda>p. (risk_score p, py_round (risk_probability p / (25 / 100) * 100))) ps =
        map (\<lambda>(s, p). (s, py_round (p / (25 / 100) * 100)))
          (map (\<lambda>p. (risk_score p, risk_probability p)) ps)" for ps
    by (simp add: comp_def)
  show ?thesis
    unfolding eq leveraged_assess_db leveraged_no_predictions
    by (simp add: py_round_148)
qed

lemma leveraged_assess_ok:
  "\<exists>resp. fst (assess_investor_default_risk ''0123456789abcdef0123456789abcdef''
        200 leveraged_db ''INV1'' ''12M'' True) = Inr resp"
  by (simp add: assess_investor_default_risk_def leveraged_model extract_risk_features_def
      leveraged_latest leveraged_predict leveraged_trend leveraged_exposure Let_def)

lemma interpolate_bounds:
  assumes "sorted s" "s \<noteq> []" "0 \<le> h" "h \<le> real (length s - 1)"
  shows "s ! nat \<lfloor>h\<rfloor> \<le> interpolate s h"
    and "interpolate s h \<le> s ! min (nat \<lfloor>h\<rfloor> + 1) (length s - 1)"
proof -
  let ?lo = "nat \<lfloor>h\<rfloor>"
  let ?hi = "min (?lo + 1) (length s - 1)"
  have lo_h: "real ?lo \<le> h" and h_lo: "h < real ?lo + 1"
    using assms(3) by linarith+
  have lo: "?lo \<le> length s - 1"
    using lo_h assms(4) by linarith
  have n: "0 < length s" using assms(2) by simp
  have hi: "?hi < length s" using n by linarith
  have le: "s ! ?lo \<le> s ! ?hi"
    using lo by (intro sorted_nth_mono [OF assms(1) _ hi]) simp
  have g0: "0 \<le> h - real ?lo" and g1: "h - real ?lo \<le> 1"
    using lo_h h_lo by linarith+
  have i: "interpolate s h = s ! ?lo + (s ! ?hi - s ! ?lo) * (h - real ?lo)"
    by (simp add: interpolate_def Let_def)
  have "0 \<le> (s ! ?hi - s ! ?lo) * (h - real ?lo)"
    using le g0 by simp
  then show "s ! ?lo \<le> interpolate s h"
    by (simp add: i)
  have "(s ! ?hi - s ! ?lo) * (h - real ?lo) \<le> (s ! ?hi - s ! ?lo) * 1"
    using le g1 by (intro mult_left_mono) auto
  then show "interpolate s h \<le> s ! ?hi"
    by (simp add: i)
qed

lemma interpolate_mono:
  assumes "sorted s" "s \<noteq> []" "0 \<le> h1" "h1 \<le> h2" "h2 \<le> real (length s - 1)"
  shows "interpolate s h1 \<le> interpolate s h2"
proof -
  let ?l1 = "nat \<lfloor>h1\<rfloor>" and ?l2 = "nat \<lfloor>h2\<rfloor>"
  have h2: "0 \<le> h2" and h1: "h1 \<le> real (length s - 1)"
    using assms by linarith+
  have l12: "?l1 \<le> ?l2"
    using assms(4) by (simp add: floor_mono nat_mono)
  have l2: "?l2 \<le> length s - 1"
    using h2 assms(5) by linarith
  have n: "0 < length s" using assms(2) by simp
  show ?thesis
  proof (cases "?l1 = ?l2")
    case True
    let ?a = "s ! ?l2" and ?b = "s ! min (?l2 + 1) (length s - 1)"
    have hi: "min (?l2 + 1) (length s - 1) < length s" using n by linarith
    have ab: "?a \<le> ?b"
      using l2 by (intro sorted_nth_mono [OF assms(1) _ hi]) simp
    have "interpolate s h2 - interpolate s h1 = (?b - ?a) * (h2 - h1)"
      by (simp add: interpolate_def Let_def True algebra_simps)
    moreover have "0 \<le> (?b - ?a) * (h2 - h1)"
      using ab assms(4) by simp
    ultimately show ?thesis by linarith
  next
    case False
    then have lt: "?l1 + 1 \<le> ?l2" using l12 by simp
    then have m: "min (?l1 + 1) (length s - 1) = ?l1 + 1"
      using l2 by simp
    have "interpolate s h1 \<le> s ! (?l1 + 1)"
      using interpolate_bounds(2) [OF assms(1,2,3) h1] m by simp
    also have "s ! (?l1 + 1) \<le> s ! ?l2"
    proof (rule sorted_nth_mono [OF assms(1) lt])
      show "?l2 < length s" using l2 n by linarith
    qed
    also have "s ! ?l2 \<le> interpolate s h2"
      using interpolate_bounds(1) [OF assms(1,2) h2 assms(5)] .
    finally show ?thesis .
  qed
qed

lemma percentile_linear_mono:
  assumes "xs \<noteq> []" "0 \<le> q1" "q1 \<le> q2" "q2 \<le> 100"
  shows "percentile_linear xs q1 \<le> percentile_linear xs q2"
proof -
  let ?n = "real (length xs - 1)"
  have s: "sorted (sort xs)" "sort xs \<noteq> []"
    using assms(1) by (simp, metis length_0_conv length_sort)
  have a: "0 \<le> ?n * (q1 / 100)" using assms(2) by simp
  have b: "?n * (q1 / 100) \<le> ?n * (q2 / 100)"
    using assms(3) by (intro mult_left_mono) auto
  have "?n * (q2 / 100) \<le> ?n * 1"
    using assms(4) by (intro mult_left_mono) auto
  then have c: "?n * (q2 / 100) \<le> real (length (sort xs) - 1)" by simp
  show ?thesis
    unfolding percentile_linear_def
    by (rule interpolate_mono [OF s a b c])
qed


lemma those_map_Some: "those (map Some xs) = Some xs"
  by (induction xs) auto

lemma np_percentile_finite:
  "xs \<noteq> [] \<Longrightarrow> 0 \<le> q \<Longrightarrow> q \<le> 100 \<Longrightarrow>
   np_percentile (map Some xs) q = Inr (Some (percentile_linear xs q))"
  by (simp add: np_percentile_def those_map_Some)

lemma filter_le_map_Some:
  "filter (\<lambda>r. np_less_equal r (Some v)) (map Some xs) = map Some (filter (\<lambda>x. x \<le> v) xs)"
  by (induction xs) (auto simp: np_less_equal_def)

lemma np_min_finite: "xs \<noteq> [] \<Longrightarrow> np_min (map Some xs) = Inr (Some (Min (set xs)))"
  by (simp add: np_min_def those_map_Some)

lemma mc_summary_finite:
  assumes "xs \<noteq> []"
  shows "mc_summary (map Some xs) =
     Inr \<lparr> returns = map Some xs,
           expected_return = np_mean (map Some xs),
           volatility = np_std (map Some xs),
           max_drawdown = Some (Min (set xs)),
           prob_positive = np_mean_bool (np_greater (map Some xs) 0),
           p5 = Some (percentile_linear xs 5),
           p25 = Some (percentile_linear xs 25),
           p50 = Some (percentile_linear xs 50),
           p75 = Some (percentile_linear xs 75),
           p95 = Some (percentile_linear xs 95) \<rparr>"
  using assms
  by (simp add: mc_summary_def np_min_finite np_percentile_finite and_then_def)

lemma calculate_var_finite:
  assumes "xs \<noteq> []" "0 \<le> c" "c \<le> 1"
  shows "calculate_var (map Some xs) c = Inr (Some (percentile_linear xs ((1 - c) * 100)))"
  using assms by (simp add: calculate_var_def np_percentile_finite)

text \<open>
  C7: for every non-empty array of finite returns, the simulator's summary of the array
  exists and its percentiles are ordered, p5 \<open>\<le>\<close> p25 \<open>\<le>\<close> p50 \<open>\<le>\<close> p75 \<open>\<le>\<close> p95, and the
  value at risk at confidence 0.99 is at most the value at risk at confidence 0.95.
\<close>

theorem C7_percentiles_ordered:
  assumes "xs \<noteq> []"
  shows "\<exists>mc a b c d e v99 v95.
     mc_summary (map Some xs) = Inr mc
     \<and> p5 mc = Some a \<and> p25 mc = Some b \<and> p50 mc = Some c \<and> p75 mc = Some d \<and> p95 mc = Some e
     \<and> a \<le> b \<and> b \<le> c \<and> c \<le> d \<and> d \<le> e
     \<and> calculate_var (map Some xs) (99 / 100) = Inr (Some v99)
     \<and> calculate_var (map Some xs) (95 / 100) = Inr (Some v95)
     \<and> v99 \<le> v95"
proof -
  have o: "percentile_linear xs 5 \<le> percentile_linear xs 25"
    "percentile_linear xs 25 \<le> percentile_linear xs 50"
    "percentile_linear xs 50 \<le> percentile_linear xs 75"
    "percentile_linear xs 75 \<le> percentile_linear xs 95"
    by (rule percentile_linear_mono [OF assms]; simp)+
  have v: "percentile_linear xs ((1 - 99 / 100) * 100) \<le> percentile_linear xs ((1 - 95 / 100) * 100)"
    by (rule percentile_linear_mono [OF assms]; simp)
  have v99: "calculate_var (map Some xs) (99 / 100) =
      Inr (Some (percentile_linear xs ((1 - 99 / 100) * 100)))"
    by (rule calculate_var_finite [OF assms]; simp)
  have v95: "calculate_var (map Some xs) (95 / 100) =
      Inr (Some (percentile_linear xs ((1 - 95 / 100) * 100)))"
    by (rule calculate_var_finite [OF assms]; simp)
  show ?thesis
    using o v by (simp only: mc_summary_finite [OF assms] v99 v95) simp
qed

text \<open>
  C7 at the four-sample array 0.3, -0.1, 0.3, -0.1.
\<close>

theorem C7_witness:
  "[3 / 10, - (1 / 10), 3 / 10, - (1 / 10)] \<noteq> ([] :: real list)
   \<and> (\<exists>mc a b c d e v99 v95.
     mc_summary (map Some [3 / 10, - (1 / 10), 3 / 10, - (1 / 10)]) = Inr mc
     \<and> p5 mc = Some a \<and> p25 mc = Some b \<and> p50 mc = Some c \<and> p75 mc = Some d \<and> p95 mc = Some e
     \<and> a \<le> b \<and> b \<le> c \<and> c \<le> d \<and> d \<le> e
     \<and> calculate_var (map Some [3 / 10, - (1 / 10), 3 / 10, - (1 / 10)]) (99 / 100)
         = Inr (Some v99)
     \<and> calculate_var (map Some [3 / 10, - (1 / 10), 3 / 10, - (1 / 10)]) (95 / 100)
         = Inr (Some v95)
     \<and> v99 \<le> v95)"
proof -
  have h: "[3 / 10, - (1 / 10), 3 / 10, - (1 / 10)] \<noteq> ([] :: real list)" by simp
  show ?thesis
    using h C7_percentiles_ordered [OF h] by blast
qed

lemma run_monte_carlo_simulation_reseeds:
  "run_monte_carlo_simulation g f st =
     (let (drawn, st2) =
            np_random_normal g (np_mean (map Some (historical_returns f)))
              (fund_features.volatility f) 10000 \<lparr> rng_seed = 42, rng_pos = 0 \<rparr>
      in (and_then drawn mc_summary, st2))"
  unfolding run_monte_carlo_simulation_def np_random_seed_def Let_def ..

lemma np_random_normal_seed: "rng_seed (snd (np_random_normal g loc scale n st)) = rng_seed st"
  by (simp add: np_random_normal_def)

lemma assess_fund_reseeds:
  "fst (assess_fund_performance_risk g uid now d st1 fid scenarios) =
   fst (assess_fund_performance_risk g uid now d st2 fid scenarios)"
  by (simp add: assess_fund_performance_risk_def run_monte_carlo_simulation_reseeds
      split: option.splits)

text \<open>
  C3 (amended): the simulator has no seed among its inputs. It reseeds the process-wide
  generator with the constant 42 on every call, so its result, and the state in which it
  leaves the generator, do not depend on the state of the generator before the call: two
  invocations on the same features give the same sample array and summary, and the same
  \<^verbatim>\<open>var_95\<close>; two fund assessments return the same response or the same error.
\<close>

theorem C3_fixed_seed_reproducible:
  "run_monte_carlo_simulation g f st1 = run_monte_carlo_simulation g f st2
   \<and> rng_seed (snd (run_monte_carlo_simulation g f st1)) = 42
   \<and> and_then (fst (run_monte_carlo_simulation g f st1))
        (\<lambda>mc. calculate_var (returns mc) (95 / 100)) =
     and_then (fst (run_monte_carlo_simulation g f st2))
        (\<lambda>mc. calculate_var (returns mc) (95 / 100))
   \<and> fst (assess_fund_performance_risk g uid now d st1 fid scenarios) =
     fst (assess_fund_performance_risk g uid now d st2 fid scenarios)"
proof -
  have a: "run_monte_carlo_simulation g f st1 = run_monte_carlo_simulation g f st2"
    by (simp only: run_monte_carlo_simulation_reseeds)
  have b: "rng_seed (snd (run_monte_carlo_simulation g f st1)) = 42"
    using np_random_normal_seed [of g "np_mean (map Some (historical_returns f))"
        "fund_features.volatility f" 10000 "\<lparr> rng_seed = 42, rng_pos = 0 \<rparr>"]
    by (simp add: run_monte_carlo_simulation_reseeds split_def Let_def)
  show ?thesis
    using a b assess_fund_reseeds [of g uid now d st1 fid scenarios st2] by simp
qed

lemma np_random_normal_finite:
  "0 \<le> scale \<Longrightarrow>
   np_random_normal g (Some m) scale n st =
     (Inr (map Some (map (\<lambda>i. m + scale * g (rng_seed st) (rng_pos st + i)) [0..<n])),
      st\<lparr> rng_pos := rng_pos st + n \<rparr>)"
  by (simp add: np_random_normal_def)

lemma placeholder_mean:
  "np_mean (map Some (historical_returns (extract_fund_features fid))) = Some (82 / 1000)"
  by (simp add: extract_fund_features_def np_mean_def)

lemma placeholder_volatility: "fund_features.volatility (extract_fund_features fid) = 18 / 100"
  by (simp add: extract_fund_features_def)

lemma seed_stream_draw:
  "0 \<le> v \<Longrightarrow>
   np_random_normal seed_stream (Some m) v n \<lparr> rng_seed = 42, rng_pos = 0 \<rparr> =
     (Inr (map Some (replicate n (m + v * 42))), \<lparr> rng_seed = 42, rng_pos = n \<rparr>)"
  by (simp add: np_random_normal_finite seed_stream_def map_replicate_const)

text \<open>
  C3, as stated, fails: the seed is not a parameter. A caller that seeds the process-wide
  generator with 7 before the call finds it seeded with 42 after it, and the samples are
  those of the stream of 42: with a generator whose variates equal its seed, each of the
  10000 samples is 0.082 + 0.18 * 42 = 7.642.
\<close>

theorem C3_caller_seed_is_overwritten:
  "snd (run_monte_carlo_simulation seed_stream (extract_fund_features ''FUND1'')
          \<lparr> rng_seed = 7, rng_pos = 0 \<rparr>) = \<lparr> rng_seed = 42, rng_pos = 10000 \<rparr>
   \<and> map_sum id returns
         (fst (run_monte_carlo_simulation seed_stream (extract_fund_features ''FUND1'')
                 \<lparr> rng_seed = 7, rng_pos = 0 \<rparr>)) =
       Inr (replicate 10000 (Some (7642 / 1000)))"
proof -
  have r: "map_sum id returns (mc_summary (replicate 10000 (Some x))) =
           Inr (replicate 10000 (Some x))" for x :: real
    using mc_summary_finite [of "replicate 10000 x"] by simp
  show ?thesis
    by (simp add: run_monte_carlo_simulation_reseeds placeholder_mean placeholder_volatility
        seed_stream_draw and_then_def r)
qed

lemma fund_model_db_model:
  "production_model fund_model_db fund_risk_model_id = Some production_fund_model"
  by (simp add: production_model_def fund_model_db_def production_fund_model_def
      fund_risk_model_id_def first_def)

lemma map_upt_const:
  assumes "\<And>i. a \<le> i \<Longrightarrow> i < b \<Longrightarrow> f i = c"
  shows "map f [a..<b] = replicate (b - a) c"
proof -
  have "map f [a..<b] = map (\<lambda>_. c) [a..<b]"
    by (rule map_cong) (auto simp: assms)
  then show ?thesis by (simp add: map_replicate_const)
qed

lemma upt_three_parts: "[0..<10000] = [0..<2500] @ [2500..<5000] @ [5000..<10000]"
proof -
  have a: "[0..<2500 + 2500] = [0..<2500] @ [2500..<2500 + 2500]"
    by (rule upt_add_eq_append) simp
  have b: "[0..<5000 + 5000] = [0..<5000] @ [5000..<5000 + 5000]"
    by (rule upt_add_eq_append) simp
  have n: "(2500 :: nat) + 2500 = 5000" "(5000 :: nat) + 5000 = 10000" by simp_all
  show ?thesis
    using a b unfolding n by (simp del: upt_rec_numeral)
qed

lemma three_level_draw:
  "np_random_normal three_level_stream (Some (82 / 1000)) (18 / 100) 10000
     \<lparr> rng_seed = 42, rng_pos = 0 \<rparr> =
   (Inr (map Some three_level_returns), \<lparr> rng_seed = 42, rng_pos = 10000 \<rparr>)"
proof -
  let ?f = "\<lambda>i. 82 / 1000 + 18 / 100 * three_level_stream 42 i"
  have a: "map ?f [0..<2500] = replicate (2500 - 0) (- (278 / 1000))"
    by (rule map_upt_const) (simp add: three_level_stream_def)
  have b: "map ?f [2500..<5000] = replicate (5000 - 2500) (- (98 / 1000))"
    by (rule map_upt_const) (simp add: three_level_stream_def)
  have c: "map ?f [5000..<10000] = replicate (10000 - 5000) (262 / 1000)"
    by (rule map_upt_const) (simp add: three_level_stream_def)
  have "map ?f [0..<10000] = three_level_returns"
    unfolding upt_three_parts map_append a b c three_level_returns_def by simp
  then show ?thesis
    by (simp add: np_random_normal_finite)
qed

lemma three_level_length: "length three_level_returns = 10000"
  by (simp add: three_level_returns_def)

lemma three_level_nonempty: "three_level_returns \<noteq> []"
  by (simp add: three_level_returns_def)

lemma three_level_sort: "sort three_level_returns = three_level_returns"
  by (rule sorted_sort_id) (simp add: three_level_returns_def sorted_append)

lemma three_level_percentiles:
  "percentile_linear three_level_returns 1 = - (278 / 1000)"
  "percentile_linear three_level_returns 5 = - (278 / 1000)"
  "percentile_linear three_level_returns 25 = - (143 / 1000)"
  "percentile_linear three_level_returns 50 = 82 / 1000"
  "percentile_linear three_level_returns 75 = 262 / 1000"
  "percentile_linear three_level_returns 95 = 262 / 1000"
proof -
  have f: "\<lfloor>9999 / 100 :: real\<rfloor> = 99" "\<lfloor>9999 / 20 :: real\<rfloor> = 499"
    "\<lfloor>9999 / 4 :: real\<rfloor> = 2499" "\<lfloor>9999 / 2 :: real\<rfloor> = 4999"
    "\<lfloor>29997 / 4 :: real\<rfloor> = 7499" "\<lfloor>189981 / 20 :: real\<rfloor> = 9499"
    by (simp_all add: floor_eq_iff)
  show "percentile_linear three_level_returns 1 = - (278 / 1000)"
    "percentile_linear three_level_returns 5 = - (278 / 1000)"
    "percentile_linear three_level_returns 25 = - (143 / 1000)"
    "percentile_linear three_level_returns 50 = 82 / 1000"
    "percentile_linear three_level_returns 75 = 262 / 1000"
    "percentile_linear three_level_returns 95 = 262 / 1000"
    by (simp_all add: percentile_linear_def interpolate_def three_level_sort three_level_length
        Let_def f) (simp_all add: three_level_returns_def nth_append)
qed

lemma three_level_sum: "sum_list three_level_returns = 370"
  by (simp add: three_level_returns_def sum_list_replicate)

lemma three_level_mean: "np_mean (map Some three_level_returns) = Some (37 / 1000)"
  by (simp add: np_mean_def those_map_Some three_level_nonempty three_level_sum
      three_level_length)

lemma three_level_std:
  "np_std (map Some three_level_returns) = Some (sqrt (2187 / 40000))"
proof -
  have "sum_list (map (\<lambda>x. (x - 37 / 1000)\<^sup>2) three_level_returns) = 2187 / 4"
    by (simp add: three_level_returns_def sum_list_replicate power2_eq_square)
  then show ?thesis
    by (simp add: np_std_def those_map_Some three_level_nonempty three_level_sum
      three_level_length Let_def)
qed

lemma three_level_min: "Min (set three_level_returns) = - (278 / 1000)"
  by (simp add: three_level_returns_def)

lemma three_level_positive:
  "np_mean_bool (np_greater (map Some three_level_returns) 0) = Some (1 / 2)"
  by (simp add: np_mean_bool_def np_greater_def three_level_returns_def)

lemma three_level_summary: "mc_summary (map Some three_level_returns) = Inr three_level_mc"
  by (simp add: mc_summary_finite [OF three_level_nonempty] three_level_mc_def
      three_level_percentiles three_level_mean three_level_std three_level_min
      three_level_positive)

lemma three_level_run:
  "run_monte_carlo_simulation three_level_stream (extract_fund_features fid) st =
     (Inr three_level_mc, \<lparr> rng_seed = 42, rng_pos = 10000 \<rparr>)"
proof -
  have d: "np_random_normal three_level_stream
             (np_mean (map Some (historical_returns (extract_fund_features fid))))
             (fund_features.volatility (extract_fund_features fid)) 10000
             \<lparr> rng_seed = 42, rng_pos = 0 \<rparr> =
           (Inr (map Some three_level_returns), \<lparr> rng_seed = 42, rng_pos = 10000 \<rparr>)"
    unfolding placeholder_mean placeholder_volatility by (rule three_level_draw)
  show ?thesis
    unfolding run_monte_carlo_simulation_reseeds d
    by (simp add: and_then_def three_level_summary)
qed

lemma three_level_var:
  "calculate_var (map Some three_level_returns) (95 / 100) = Inr (Some (- (278 / 1000)))"
  "calculate_var (map Some three_level_returns) (99 / 100) = Inr (Some (- (278 / 1000)))"
  by (simp_all add: calculate_var_finite [OF three_level_nonempty] three_level_percentiles)

lemma three_level_cvar:
  "calculate_cvar (map Some three_level_returns) (95 / 100) = Inr (Some (- (278 / 1000)))"
proof -
  have "filter (\<lambda>x. x \<le> - (278 / 1000)) three_level_returns = replicate 2500 (- (278 / 1000))"
    by (simp add: three_level_returns_def)
  then show ?thesis
    unfolding calculate_cvar_def three_level_var and_then_def sum.case filter_le_map_Some
      np_mean_def those_map_Some
    by (simp add: sum_list_replicate)
qed

lemma three_level_sharpe:
  "calculate_sharpe_ratio three_level_mc = Inr (Some (17 / 1000 / sqrt (2187 / 40000)))"
  by (simp add: calculate_sharpe_ratio_def three_level_mc_def py_float_div_def np_sub_def)

lemma filter_less_map_Some:
  "filter (\<lambda>r. np_less r (Some v)) (map Some xs) = map Some (filter (\<lambda>x. x < v) xs)"
  by (induction xs) (auto simp: np_less_def)

lemma three_level_sortino:
  "calculate_sortino_ratio three_level_mc = Inr (Some (17 / 90))"
proof -
  have d: "filter (\<lambda>x. x < 2 / 100) three_level_returns =
        replicate 2500 (- (278 / 1000)) @ replicate 2500 (- (98 / 1000))"
    by (simp add: three_level_returns_def)
  have s: "sqrt (81 / 10000) = 9 / 100"
    by (rule real_sqrt_unique) (simp_all add: power2_eq_square)
  have n: "np_std (map Some (replicate 2500 (- (278 / 1000)) @ replicate 2500 (- (98 / 1000))))
        = Some (9 / 100)"
    unfolding np_std_def those_map_Some
    by (simp add: sum_list_replicate power2_eq_square Let_def s)
  have r: "returns three_level_mc = map Some three_level_returns"
    and e: "expected_return three_level_mc = Some (37 / 1000)"
    by (simp_all add: three_level_mc_def)
  show ?thesis
    unfolding calculate_sortino_ratio_def Let_def r e filter_less_map_Some d n
    by (simp add: py_float_div_def np_sub_def)
qed

lemma three_level_steps:
  "\<exists>p resp. fund_risk_steps uid now model fid features scenarios three_level_mc = Inr (p, resp)
       \<and> risk_probability p = 1 / 2 \<and> risk_score p = 50"
proof -
  have r: "returns three_level_mc = map Some three_level_returns"
    by (simp add: three_level_mc_def)
  show ?thesis
    unfolding fund_risk_steps_def r three_level_var three_level_cvar three_level_sharpe
      three_level_sortino and_then_def Let_def sum.case
    by (simp add: fund_risk_prediction_def three_level_mc_def py_int_def)
qed

lemma three_level_assess:
  "\<exists>resp p.
     assess_fund_performance_risk three_level_stream uid now fund_model_db st fid scenarios =
       (Inr resp, fund_model_db\<lparr> risk_predictions := risk_predictions fund_model_db @ [p] \<rparr>,
        \<lparr> rng_seed = 42, rng_pos = 10000 \<rparr>)
     \<and> risk_probability p = 1 / 2 \<and> risk_score p = 50"
proof -
  obtain p resp where s:
    "fund_risk_steps uid now production_fund_model fid (extract_fund_features fid) scenarios
       three_level_mc = Inr (p, resp)"
    and p: "risk_probability p = 1 / 2" "risk_score p = 50"
    using three_level_steps by blast
  have "assess_fund_performance_risk three_level_stream uid now fund_model_db st fid scenarios =
       (Inr resp, fund_model_db\<lparr> risk_predictions := risk_predictions fund_model_db @ [p] \<rparr>,
        \<lparr> rng_seed = 42, rng_pos = 10000 \<rparr>)"
    by (simp add: assess_fund_performance_risk_def fund_model_db_model three_level_run
        and_then_def s)
  then show ?thesis using p by blast
qed

lemma fund_risk_prediction_score:
  "fund_risk_prediction uid now model fid mc v95 cv95 rm = Inr q \<Longrightarrow>
   risk_score q = py_int (risk_probability q * 100)"
  by (auto simp: fund_risk_prediction_def split: option.splits)

lemma fund_risk_steps_score:
  assumes "fund_risk_steps uid now model fid features scenarios mc = Inr (q, resp)"
  shows "risk_score q = py_int (risk_probability q * 100)"
proof -
  from assms obtain v95 cv95 rm where
    "fund_risk_prediction uid now model fid mc v95 cv95 rm = Inr q"
    by (auto simp: fund_risk_steps_def and_then_def Let_def split: sum.splits)
  then show ?thesis by (rule fund_risk_prediction_score)
qed

lemma assess_fund_appends:
  assumes "assess_fund_performance_risk g uid now d st fid scenarios = (Inr resp, d', st')"
  shows "\<exists>q. d' = d\<lparr> risk_predictions := risk_predictions d @ [q] \<rparr>
             \<and> risk_score q = py_int (risk_probability q * 100)"
  using assms
  by (auto simp: assess_fund_performance_risk_def Let_def and_then_def split_def
      split: option.splits sum.splits dest: fund_risk_steps_score)

lemma late_payer_latest: "latest_feature_record late_payer_db ''INV1'' = Some late_payer_record"
  by (simp add: latest_feature_record_def late_payer_db_def late_payer_record_def
      order_by_desc_def first_def)

lemma late_payer_model:
  "production_model late_payer_db default_risk_model_id = Some production_default_model"
  by (simp add: production_model_def late_payer_db_def production_default_model_def
      default_risk_model_id_def first_def)

lemma late_payer_predict:
  "predict_default_risk (features_of_record late_payer_record) = (725 / 10000, 29)"
  by (simp add: predict_default_risk_def raw_risk_score_def features_of_record_def
      late_payer_record_def py_or_def late_payment_score_def missed_payment_score_def
      on_time_bonus_def leverage_score_def sentiment_score_def py_int_def)

lemma late_payer_trend: "calculate_risk_trend late_payer_db ''INV1'' s = (s, STABLE)"
  by (simp add: calculate_risk_trend_def late_payer_db_def prior_assessment_def
      order_by_desc_def offset_def first_def)

lemma late_payer_exposure:
  "calculate_loss_exposure late_payer_db ''INV1'' p = Inr (500000 * p, 500000 * p / 15000000 * 100)"
  by (simp add: calculate_loss_exposure_def late_payer_latest Let_def late_payer_record_def)

text \<open>
  C2 at an investor with exactly one recorded DEFAULT_RISK assessment, of score 10, whose
  current features score 29: the query of \<^verbatim>\<open>_calculate_risk_trend\<close> skips the most recent
  row (\<^verbatim>\<open>offset(1)\<close>) although the current assessment is not stored yet, finds nothing
  and returns the current score with STABLE; so does the assessment as a whole. The most
  recent prior score 10 would give the difference 19 and DETERIORATING.
\<close>

theorem C2_most_recent_prior_is_skipped:
  "map (\<lambda>p. (risk_score p, prediction_timestamp p))
     (filter (\<lambda>p. investor_id p = Some ''INV1'' \<and> risk_type p = ''DEFAULT_RISK'')
        (risk_predictions late_payer_db)) = [(10, 100)]
   \<and> calculate_risk_trend late_payer_db ''INV1'' 29 = (29, STABLE)
   \<and> map_sum id (\<lambda>r. (default_risk_response.risk_score r, previous_score r, trend r))
         (fst (assess_investor_default_risk ''0123456789abcdef0123456789abcdef'' 200
                 late_payer_db ''INV1'' ''12M'' True)) = Inr (29, Some 29, STABLE)"
proof (intro conjI)
  show "map (\<lambda>p. (risk_score p, prediction_timestamp p))
     (filter (\<lambda>p. investor_id p = Some ''INV1'' \<and> risk_type p = ''DEFAULT_RISK'')
        (risk_predictions late_payer_db)) = [(10, 100)]"
    by (simp add: late_payer_db_def prior_assessment_def)
  show "calculate_risk_trend late_payer_db ''INV1'' 29 = (29, STABLE)"
    by (rule late_payer_trend)
  show "map_sum id (\<lambda>r. (default_risk_response.risk_score r, previous_score r, trend r))
         (fst (assess_investor_default_risk ''0123456789abcdef0123456789abcdef'' 200
                 late_payer_db ''INV1'' ''12M'' True)) = Inr (29, Some 29, STABLE)"
    by (simp add: assess_investor_default_risk_def late_payer_model extract_risk_features_def
        late_payer_latest late_payer_predict late_payer_trend late_payer_exposure Let_def)
qed


lemma raw_risk_score_fl_exact: "raw_risk_score_fl (\<lambda>x. x) f = raw_risk_score f"
proof -
  have m: "(if 0 < g then g * 25 else 0) = max 0 g * 25" for g :: real
    by (simp add: max_def)
  show ?thesis
    unfolding raw_risk_score_fl_def raw_risk_score_def late_payment_score_def
      missed_payment_score_def on_time_bonus_def leverage_score_def sentiment_score_def
      Let_def m
    by simp
qed

lemma predict_default_risk_fl_exact: "predict_default_risk_fl (\<lambda>x. x) f = predict_default_risk f"
  by (simp add: predict_default_risk_fl_def predict_default_risk_def raw_risk_score_fl_exact)

lemma extract_risk_features_fl_exact:
  "extract_risk_features_fl (\<lambda>x. x) d iid = extract_risk_features d iid"
  by (simp add: extract_risk_features_fl_def extract_risk_features_def
      generate_default_risk_features_fl_def generate_default_risk_features_def
      features_of_record_fl_def features_of_record_def split: option.splits)

lemma calculate_risk_tier_fl_exact: "calculate_risk_tier_fl (\<lambda>x. x) p = calculate_risk_tier p"
  by (simp add: calculate_risk_tier_fl_def calculate_risk_tier_def)

lemma identify_risk_factors_fl_exact:
  "identify_risk_factors_fl (\<lambda>x. x) f = identify_risk_factors f"
  by (simp add: identify_risk_factors_fl_def identify_risk_factors_def)

lemma calculate_loss_exposure_fl_exact:
  "calculate_loss_exposure_fl (\<lambda>x. x) d iid p = calculate_loss_exposure d iid p"
  by (simp add: calculate_loss_exposure_fl_def calculate_loss_exposure_def)

lemma assess_investor_default_risk_fl_exact:
  "assess_investor_default_risk_fl (\<lambda>x. x) uid now d iid horizon include_trend =
   assess_investor_default_risk uid now d iid horizon include_trend"
  unfolding assess_investor_default_risk_fl_def assess_investor_default_risk_def
    extract_risk_features_fl_exact predict_default_risk_fl_exact calculate_risk_tier_fl_exact
    identify_risk_factors_fl_exact calculate_loss_exposure_fl_exact ..

lemma predict_default_risk_fl_pair:
  "predict_default_risk_fl fl f =
     (fl (fl (raw_risk_score_fl fl f / 100) * fl (25 / 100)), py_int (raw_risk_score_fl fl f))"
  by (simp add: predict_default_risk_fl_def Let_def)

lemma assess_default_fl_appends:
  assumes "assess_investor_default_risk_fl fl uid now d iid horizon include_trend = (Inr resp, d')"
  shows "\<exists>p. d' = d\<lparr> risk_predictions := risk_predictions d @ [p] \<rparr>
             \<and> risk_score p = py_int (raw_risk_score_fl fl (extract_risk_features_fl fl d iid))
             \<and> risk_probability p =
                 fl (fl (raw_risk_score_fl fl (extract_risk_features_fl fl d iid) / 100)
                     * fl (25 / 100))"
  using assms
  by (auto simp: assess_investor_default_risk_fl_def predict_default_risk_fl_pair Let_def
      split: option.splits sum.splits prod.splits)








text \<open>
  C1 (amended): under every rounding of the float operations, a default-risk assessment
  that succeeds appends one row whose score is the truncation toward zero of the scorer's
  raw score, the raw score from which the row's probability is derived (divided by 100 and
  multiplied by 0.25, each result rounded). A fund assessment that succeeds appends one
  row, whose score is the truncation of its probability multiplied by 100 (no cap enters).
\<close>

theorem C1_score_is_truncated_raw_score:
  "(assess_investor_default_risk_fl fl uid now d iid horizon include_trend = (Inr resp, d')
      \<longrightarrow> (\<exists>p. d' = d\<lparr> risk_predictions := risk_predictions d @ [p] \<rparr>
               \<and> risk_score p = py_int (raw_risk_score_fl fl (extract_risk_features_fl fl d iid))
               \<and> risk_probability p =
                   fl (fl (raw_risk_score_fl fl (extract_risk_features_fl fl d iid) / 100)
                       * fl (25 / 100))))
   \<and> (assess_fund_performance_risk g fuid fnow fd st fid scenarios = (Inr fresp, fd', st')
      \<longrightarrow> (\<exists>q. fd' = fd\<lparr> risk_predictions := risk_predictions fd @ [q] \<rparr>
               \<and> risk_score q = py_int (risk_probability q * 100)))"
proof (intro conjI impI)
  assume "assess_investor_default_risk_fl fl uid now d iid horizon include_trend = (Inr resp, d')"
  then show "\<exists>p. d' = d\<lparr> risk_predictions := risk_predictions d @ [p] \<rparr>
               \<and> risk_score p = py_int (raw_risk_score_fl fl (extract_risk_features_fl fl d iid))
               \<and> risk_probability p =
                   fl (fl (raw_risk_score_fl fl (extract_risk_features_fl fl d iid) / 100)
                       * fl (25 / 100))"
    by (rule assess_default_fl_appends)
next
  assume "assess_fund_performance_risk g fuid fnow fd st fid scenarios = (Inr fresp, fd', st')"
  then show "\<exists>q. fd' = fd\<lparr> risk_predictions := risk_predictions fd @ [q] \<rparr>
               \<and> risk_score q = py_int (risk_probability q * 100)"
    by (rule assess_fund_appends)
qed

text \<open>
  C1 (amended) with exact arithmetic for the rounding, at the investor of leverage 0.34 (raw
  score 14.8, stored score 14, stored probability 0.037), and at a fund assessment run on
  the three-level generator, where half of the samples are positive and the stored
  probability is 0.5.
\<close>

theorem C1_witness:
  "(\<exists>resp p.
      assess_investor_default_risk_fl (\<lambda>x. x) ''0123456789abcdef0123456789abcdef''
        200 leveraged_db ''INV1'' ''12M'' True =
        (Inr resp, leveraged_db\<lparr> risk_predictions := risk_predictions leveraged_db @ [p] \<rparr>)
      \<and> raw_risk_score_fl (\<lambda>x. x) (extract_risk_features_fl (\<lambda>x. x) leveraged_db ''INV1'')
          = 148 / 10
      \<and> risk_score p = 14
      \<and> risk_probability p = 37 / 1000)
   \<and> (\<exists>resp q.
      assess_fund_performance_risk three_level_stream ''0123456789abcdef0123456789abcdef''
        200 fund_model_db \<lparr> rng_seed = 7, rng_pos = 3 \<rparr> ''FUND1'' None =
        (Inr resp, fund_model_db\<lparr> risk_predictions := risk_predictions fund_model_db @ [q] \<rparr>,
         \<lparr> rng_seed = 42, rng_pos = 10000 \<rparr>)
      \<and> risk_probability q = 1 / 2
      \<and> risk_score q = py_int (risk_probability q * 100))"
proof -
  obtain resp d' where a:
    "assess_investor_default_risk_fl (\<lambda>x. x) ''0123456789abcdef0123456789abcdef''
        200 leveraged_db ''INV1'' ''12M'' True = (Inr resp, d')"
    unfolding assess_investor_default_risk_fl_exact
    using leveraged_assess_ok by (metis prod.collapse)
  obtain fresp q where b:
    "assess_fund_performance_risk three_level_stream ''0123456789abcdef0123456789abcdef''
        200 fund_model_db \<lparr> rng_seed = 7, rng_pos = 3 \<rparr> ''FUND1'' None =
        (Inr fresp, fund_model_db\<lparr> risk_predictions := risk_predictions fund_model_db @ [q] \<rparr>,
         \<lparr> rng_seed = 42, rng_pos = 10000 \<rparr>)"
    and c: "risk_probability q = 1 / 2"
    using three_level_assess by blast
  note t = C1_score_is_truncated_raw_score
    [of "\<lambda>x. x" "''0123456789abcdef0123456789abcdef''" 200 leveraged_db "''INV1''" "''12M''"
      True resp d'
      three_level_stream "''0123456789abcdef0123456789abcdef''" 200 fund_model_db
      "\<lparr> rng_seed = 7, rng_pos = 3 \<rparr>" "''FUND1''" None fresp
      "fund_model_db\<lparr> risk_predictions := risk_predictions fund_model_db @ [q] \<rparr>"
      "\<lparr> rng_seed = 42, rng_pos = 10000 \<rparr>"]
  have raw: "raw_risk_score_fl (\<lambda>x. x) (extract_risk_features_fl (\<lambda>x. x) leveraged_db ''INV1'')
          = 148 / 10"
    by (simp only: raw_risk_score_fl_exact extract_risk_features_fl_exact
        extract_risk_features_def leveraged_latest option.case leveraged_raw)
  from t a obtain p where p:
    "d' = leveraged_db\<lparr> risk_predictions := risk_predictions leveraged_db @ [p] \<rparr>"
    "risk_score p = py_int (raw_risk_score_fl (\<lambda>x. x)
        (extract_risk_features_fl (\<lambda>x. x) leveraged_db ''INV1''))"
    "risk_probability p =
       raw_risk_score_fl (\<lambda>x. x) (extract_risk_features_fl (\<lambda>x. x) leveraged_db ''INV1'')
         / 100 * (25 / 100)"
    by blast
  have p14: "risk_score p = 14" "risk_probability p = 37 / 1000"
    using p(2,3) by (simp_all add: raw py_int_148)
  from t b obtain q' where q':
    "fund_model_db\<lparr> risk_predictions := risk_predictions fund_model_db @ [q] \<rparr> =
     fund_model_db\<lparr> risk_predictions := risk_predictions fund_model_db @ [q'] \<rparr>"
    "risk_score q' = py_int (risk_probability q' * 100)"
    by blast
  from q'(1) have
    "risk_predictions (fund_model_db\<lparr> risk_predictions := risk_predictions fund_model_db @ [q] \<rparr>) =
     risk_predictions (fund_model_db\<lparr> risk_predictions := risk_predictions fund_model_db @ [q'] \<rparr>)"
    by (rule arg_cong)
  then have "q = q'" by simp
  with q'(2) have "risk_score q = py_int (risk_probability q * 100)" by simp
  with a b c p(1) p14 raw show ?thesis
    by blast
qed

end
